theory Spec2Isabelle
  imports Complex_Main
begin

section \<open>Errors and results\<close>

text \<open>
  Every exception the two modules can raise is a value. \<open>ValueError\<close> carries the place
  that raises it: the constructor's check, one of the six checks of \<open>_attn\<close>, Python's
  tuple unpacking, or \<open>Framework\<close> for a \<open>ValueError\<close> that one of the tensor framework's
  own argument and shape checks raises inside a framework call. \<open>UnboundLocalError\<close>
  carries the name of the local variable read before assignment. \<open>NoneOperand\<close> is the
  exception the tensor framework raises when it is handed \<open>None\<close> where it expects a
  tensor, \<open>FrameworkError\<close> an exception of any other class raised inside a framework
  call.
\<close>

datatype vsite =
  InitShape | AttnQuery | AttnKeys | AttnValues | AttnQK | AttnQV | AttnKV | Unpack
| Framework

datatype error =
  ValueError vsite
| UnboundLocalError string
| IndexError
| NoneOperand
| FrameworkError

type_synonym 'a result = "error + 'a"

definition bindE :: "'a result \<Rightarrow> ('a \<Rightarrow> 'b result) \<Rightarrow> 'b result" where
  "bindE m f = (case m of Inl e \<Rightarrow> Inl e | Inr v \<Rightarrow> f v)"

text \<open>
  The frameworks are external: their calls are parameters of the model. A call of
  \<open>paddle.fluid\<close>, which the LSTM cell is built on, returns a value or raises, and of
  the exception the model keeps whether it is a \<open>ValueError\<close>.
\<close>

datatype 'a outcome = Returns 'a | RaisesValueError | RaisesOther

definition fluid_call :: "'a outcome \<Rightarrow> 'a result" where
  "fluid_call r =
     (case r of
        Returns v \<Rightarrow> Inr v
      | RaisesValueError \<Rightarrow> Inl (ValueError Framework)
      | RaisesOther \<Rightarrow> Inl FrameworkError)"

text \<open>
  A call of \<open>paddle\<close> 2.0, which the ECO network is built on, returns a value or
  \<open>None\<close> when it raises: nothing below depends on the class of such an exception,
  and \<open>FrameworkError\<close> stands for it whatever its class.
\<close>

definition fw_call :: "'a option \<Rightarrow> 'a result" where
  "fw_call r = (case r of None \<Rightarrow> Inl FrameworkError | Some v \<Rightarrow> Inr v)"

definition tensor_arg :: "'t option \<Rightarrow> 't result" where
  "tensor_arg x = (case x of None \<Rightarrow> Inl NoneOperand | Some t \<Rightarrow> Inr t)"

definition local_var :: "string \<Rightarrow> 'a option \<Rightarrow> 'a result" where
  "local_var nm v = (case v of None \<Rightarrow> Inl (UnboundLocalError nm) | Some x \<Rightarrow> Inr x)"

definition unpack4 :: "'a list \<Rightarrow> ('a \<times> 'a \<times> 'a \<times> 'a) result" where
  "unpack4 xs =
     (if length xs = 4 then Inr (xs ! 0, xs ! 1, xs ! 2, xs ! 3)
      else Inl (ValueError Unpack))"

definition unpack7 :: "'a list \<Rightarrow> ('a \<times> 'a \<times> 'a \<times> 'a \<times> 'a \<times> 'a \<times> 'a) result" where
  "unpack7 xs =
     (if length xs = 7 then Inr (xs ! 0, xs ! 1, xs ! 2, xs ! 3, xs ! 4, xs ! 5, xs ! 6)
      else Inl (ValueError Unpack))"

section \<open>The tensor framework used by the Eidetic LSTM cell\<close>

text \<open>
  \<open>rnn_cellp.py\<close> builds its graph from \<open>paddle.fluid\<close>. The framework is a parameter:
  a record of the calls the cell makes, over an abstract tensor type \<open>'t\<close>. A call that
  creates parameters (a convolution, a layer normalization) takes the index of the call
  site as its first argument, since the framework gives every such call fresh weights.
  A kernel size is an int or a tuple of ints. \<open>layers_conv2d\<close> is
  \<open>fluid.layers.conv2d(inputs, num_filters, filter_size, padding="same")\<close> and
  \<open>layers_conv3d\<close> is \<open>fluid.layers.conv3d\<close> with \<open>padding="same"\<close> and
  \<open>data_format='NDHWC'\<close>; \<open>var_add\<close>, \<open>var_mul\<close> and \<open>var_add_scalar\<close> are the operators
  \<open>+\<close> and \<open>*\<close> on tensors and \<open>+\<close> of a tensor and a float.
\<close>

datatype ksize = KInt int | KTuple "int list"

record 't fluid =
  tshape :: "'t \<Rightarrow> int list"
  layers_layer_norm :: "nat \<Rightarrow> 't \<Rightarrow> 't outcome"
  layers_reshape :: "'t \<Rightarrow> int list \<Rightarrow> 't outcome"
  layers_matmul :: "'t \<Rightarrow> 't \<Rightarrow> bool \<Rightarrow> bool \<Rightarrow> 't outcome"
  layers_softmax :: "'t \<Rightarrow> int \<Rightarrow> 't outcome"
  layers_conv2d :: "nat \<Rightarrow> 't \<Rightarrow> int \<Rightarrow> ksize \<Rightarrow> 't outcome"
  layers_conv3d :: "nat \<Rightarrow> 't \<Rightarrow> int \<Rightarrow> ksize \<Rightarrow> 't outcome"
  layers_split :: "'t \<Rightarrow> int \<Rightarrow> int \<Rightarrow> 't list outcome"
  layers_sigmoid :: "'t \<Rightarrow> 't outcome"
  layers_tanh :: "'t \<Rightarrow> 't outcome"
  layers_concat :: "'t list \<Rightarrow> int \<Rightarrow> 't outcome"
  var_add :: "'t \<Rightarrow> 't \<Rightarrow> 't outcome"
  var_mul :: "'t \<Rightarrow> 't \<Rightarrow> 't outcome"
  var_add_scalar :: "'t \<Rightarrow> real \<Rightarrow> 't outcome"

section \<open>EideticLSTMCell\<close>

record EideticLSTMCell =
  conv_ndims :: int
  input_shape :: "int list"
  output_channels :: int
  kernel_shape :: ksize
  layer_norm :: bool
  norm_gain :: real
  norm_shift :: real
  forget_bias :: real
  layer_name :: string

text \<open>\<open>EideticLSTMCell.__init__\<close>: one check, then the arguments are stored.\<close>

definition EideticLSTMCell_init ::
  "int \<Rightarrow> int list \<Rightarrow> int \<Rightarrow> ksize \<Rightarrow> bool \<Rightarrow> real \<Rightarrow> real \<Rightarrow> real \<Rightarrow> string
     \<Rightarrow> EideticLSTMCell result" where
  "EideticLSTMCell_init cn ishape oc ks lnorm gain shift fb nm =
     (if cn \<noteq> int (length ishape) - 1 then Inl (ValueError InitShape)
      else Inr \<lparr>conv_ndims = cn, input_shape = ishape, output_channels = oc,
                kernel_shape = ks, layer_norm = lnorm, norm_gain = gain,
                norm_shift = shift, forget_bias = fb, layer_name = nm\<rparr>)"

text \<open>The subclasses fix \<open>conv_ndims\<close> and their default name.\<close>

definition Eidetic2DLSTMCell_init ::
  "string \<Rightarrow> int list \<Rightarrow> int \<Rightarrow> ksize \<Rightarrow> bool \<Rightarrow> real \<Rightarrow> real \<Rightarrow> real
     \<Rightarrow> EideticLSTMCell result" where
  "Eidetic2DLSTMCell_init nm ishape oc ks lnorm gain shift fb =
     EideticLSTMCell_init 2 ishape oc ks lnorm gain shift fb nm"

definition Eidetic3DLSTMCell_init ::
  "string \<Rightarrow> int list \<Rightarrow> int \<Rightarrow> ksize \<Rightarrow> bool \<Rightarrow> real \<Rightarrow> real \<Rightarrow> real
     \<Rightarrow> EideticLSTMCell result" where
  "Eidetic3DLSTMCell_init nm ishape oc ks lnorm gain shift fb =
     EideticLSTMCell_init 3 ishape oc ks lnorm gain shift fb nm"

text \<open>\<open>_norm\<close>: the framework's layer normalization; \<open>scope\<close> and \<open>dtype\<close> are unused.\<close>

definition norm_layer :: "'t fluid \<Rightarrow> nat \<Rightarrow> 't option \<Rightarrow> 't result" where
  "norm_layer fw site inp = bindE (tensor_arg inp) (\<lambda>t. fluid_call (layers_layer_norm fw site t))"

text \<open>
  \<open>_attn\<close>. The shape checks, in the source's order; \<open>attn_dims\<close> is the first
  \<open>if/elif/else\<close>, which reads batch, width, height and channels off the query.
\<close>

definition attn_dims :: "int list \<Rightarrow> (int \<times> int \<times> int \<times> int) result" where
  "attn_dims q_shape =
     (if length q_shape = 4 then Inr (q_shape ! 0, q_shape ! 1, q_shape ! 2, q_shape ! 3)
      else if length q_shape = 5 then Inr (q_shape ! 0, q_shape ! 2, q_shape ! 3, q_shape ! 4)
      else Inl (ValueError AttnQuery))"

definition attn_checks ::
  "int list \<Rightarrow> int list \<Rightarrow> int list \<Rightarrow> (int \<times> int \<times> int \<times> int) result" where
  "attn_checks q_shape k_shape v_shape =
     bindE (attn_dims q_shape) (\<lambda>(batch, width, height, num_channels).
       if length k_shape \<noteq> 5 then Inl (ValueError AttnKeys)
       else if length v_shape \<noteq> 5 then Inl (ValueError AttnValues)
       else if width \<noteq> k_shape ! 2 \<or> height \<noteq> k_shape ! 3 \<or> num_channels \<noteq> k_shape ! 4
         then Inl (ValueError AttnQK)
       else if width \<noteq> v_shape ! 2 \<or> height \<noteq> v_shape ! 3 \<or> num_channels \<noteq> v_shape ! 4
         then Inl (ValueError AttnQV)
       else if k_shape ! 2 \<noteq> v_shape ! 2 \<or> k_shape ! 3 \<noteq> v_shape ! 3
               \<or> k_shape ! 4 \<noteq> v_shape ! 4
         then Inl (ValueError AttnKV)
       else Inr (batch, width, height, num_channels))"

definition attn :: "'t fluid \<Rightarrow> 't \<Rightarrow> 't \<Rightarrow> 't \<Rightarrow> 't result" where
  "attn fw in_query in_keys in_values =
     (let q_shape = tshape fw in_query in
      bindE (attn_checks q_shape (tshape fw in_keys) (tshape fw in_values))
        (\<lambda>(batch, width, height, num_channels).
      bindE (fluid_call (layers_reshape fw in_query [batch, -1, num_channels])) (\<lambda>query.
      bindE (fluid_call (layers_reshape fw in_keys [batch, -1, num_channels])) (\<lambda>keys.
      bindE (fluid_call (layers_reshape fw in_values [batch, -1, num_channels])) (\<lambda>vals.
      bindE (fluid_call (layers_matmul fw query keys False True)) (\<lambda>a1.
      bindE (fluid_call (layers_softmax fw a1 2)) (\<lambda>a2.
      bindE (fluid_call (layers_matmul fw a2 vals False False)) (\<lambda>a3.
      if length q_shape = 4
      then fluid_call (layers_reshape fw a3 [batch, width, height, num_channels])
      else fluid_call (layers_reshape fw a3 [batch, -1, width, height, num_channels])))))))))"

text \<open>
  \<open>_conv\<close>: a same-padded 2D or 3D convolution; for any other \<open>conv_ndims\<close> the method
  falls off its end and returns \<open>None\<close>.
\<close>

definition conv ::
  "'t fluid \<Rightarrow> EideticLSTMCell \<Rightarrow> nat \<Rightarrow> 't \<Rightarrow> int \<Rightarrow> ksize \<Rightarrow> 't option result" where
  "conv fw self site inputs oc ks =
     (if conv_ndims self = 2 then map_sum id Some (fluid_call (layers_conv2d fw site inputs oc ks))
      else if conv_ndims self = 3
        then map_sum id Some (fluid_call (layers_conv3d fw site inputs oc ks))
      else Inr None)"

text \<open>
  \<open>__call__\<close>. The seven input gates and the four global-memory gates are local
  variables assigned only under \<open>if self._layer_norm\<close>; a local is \<open>None\<close> while it is
  unbound and is read through \<open>local_var\<close>. \<open>new_hidden\<close>, \<open>new_inputs\<close>,
  \<open>new_global_memory\<close>, \<open>o_c\<close>, \<open>o_m\<close> and \<open>memory\<close> hold what \<open>_conv\<close> returned, a tensor
  or \<open>None\<close>.
\<close>

definition input_gates ::
  "'t fluid \<Rightarrow> EideticLSTMCell \<Rightarrow> 't option
     \<Rightarrow> ('t option \<times> 't option \<times> 't option \<times> 't option \<times> 't option \<times> 't option \<times> 't option)
          result" where
  "input_gates fw self new_inputs =
     (if layer_norm self then
        bindE (norm_layer fw 1 new_inputs) (\<lambda>new_inputs.
        bindE (fluid_call (layers_split fw new_inputs 7 (-1))) (\<lambda>xs.
        bindE (unpack7 xs) (\<lambda>(i_x, g_x, r_x, o_x, temp_i_x, temp_g_x, temp_f_x).
        Inr (Some i_x, Some g_x, Some r_x, Some o_x,
             Some temp_i_x, Some temp_g_x, Some temp_f_x))))
      else Inr (None, None, None, None, None, None, None))"

definition memory_gates ::
  "'t fluid \<Rightarrow> EideticLSTMCell \<Rightarrow> 't option
     \<Rightarrow> ('t option \<times> 't option \<times> 't option \<times> 't option) result" where
  "memory_gates fw self new_global_memory =
     (if layer_norm self then
        bindE (norm_layer fw 3 new_global_memory) (\<lambda>new_global_memory.
        bindE (fluid_call (layers_split fw new_global_memory 4 (-1))) (\<lambda>ms.
        bindE (unpack4 ms) (\<lambda>(i_m, f_m, g_m, m_m).
        Inr (Some i_m, Some f_m, Some g_m, Some m_m))))
      else Inr (None, None, None, None))"

text \<open>Lines 165 to 170: the hidden state's four gates.\<close>

definition hidden_gates ::
  "'t fluid \<Rightarrow> EideticLSTMCell \<Rightarrow> 't \<Rightarrow> ('t \<times> 't \<times> 't \<times> 't) result" where
  "hidden_gates fw self hidden =
     bindE (conv fw self 0 hidden (4 * output_channels self) (kernel_shape self))
       (\<lambda>new_hidden.
     bindE (if layer_norm self then map_sum id Some (norm_layer fw 0 new_hidden)
            else Inr new_hidden) (\<lambda>new_hidden.
     bindE (tensor_arg new_hidden) (\<lambda>t.
     bindE (fluid_call (layers_split fw t 4 (-1))) (\<lambda>hs.
     unpack4 hs))))"

text \<open>Lines 179 to 184: the recall gate, the attention and the new cell state.\<close>

definition new_cell_of ::
  "'t fluid \<Rightarrow> 't option \<Rightarrow> 't option \<Rightarrow> 't option \<Rightarrow> 't \<Rightarrow> 't \<Rightarrow> 't \<Rightarrow> 't \<Rightarrow> 't
     \<Rightarrow> 't result" where
  "new_cell_of fw i_x g_x r_x i_h g_h r_h cell eidetic_cell =
     bindE (local_var ''i_x'' i_x) (\<lambda>i_x.
     bindE (fluid_call (var_add fw i_x i_h)) (\<lambda>s.
     bindE (fluid_call (layers_sigmoid fw s)) (\<lambda>i_t.
     bindE (local_var ''r_x'' r_x) (\<lambda>r_x.
     bindE (fluid_call (var_add fw r_x r_h)) (\<lambda>s.
     bindE (fluid_call (layers_sigmoid fw s)) (\<lambda>r_t.
     bindE (local_var ''g_x'' g_x) (\<lambda>g_x.
     bindE (fluid_call (var_add fw g_x g_h)) (\<lambda>s.
     bindE (fluid_call (layers_tanh fw s)) (\<lambda>g_t.
     bindE (attn fw r_t eidetic_cell eidetic_cell) (\<lambda>a.
     bindE (fluid_call (var_add fw cell a)) (\<lambda>new_cell.
     bindE (norm_layer fw 2 (Some new_cell)) (\<lambda>n.
     bindE (fluid_call (var_mul fw i_t g_t)) (\<lambda>ig.
     fluid_call (var_add fw n ig))))))))))))))"

text \<open>Lines 186 to 197: the new global memory.\<close>

definition new_global_memory_of ::
  "'t fluid \<Rightarrow> EideticLSTMCell \<Rightarrow> 't option \<Rightarrow> 't option \<Rightarrow> 't option \<Rightarrow> 't
     \<Rightarrow> 't result" where
  "new_global_memory_of fw self temp_i_x temp_g_x temp_f_x global_memory =
     bindE (conv fw self 2 global_memory (4 * output_channels self) (kernel_shape self))
       (\<lambda>new_global_memory.
     bindE (memory_gates fw self new_global_memory) (\<lambda>(i_m, f_m, g_m, m_m).
     bindE (local_var ''temp_i_x'' temp_i_x) (\<lambda>temp_i_x.
     bindE (local_var ''i_m'' i_m) (\<lambda>i_m.
     bindE (fluid_call (var_add fw temp_i_x i_m)) (\<lambda>s.
     bindE (fluid_call (layers_sigmoid fw s)) (\<lambda>temp_i_t.
     bindE (local_var ''temp_f_x'' temp_f_x) (\<lambda>temp_f_x.
     bindE (local_var ''f_m'' f_m) (\<lambda>f_m.
     bindE (fluid_call (var_add fw temp_f_x f_m)) (\<lambda>s.
     bindE (fluid_call (var_add_scalar fw s (forget_bias self))) (\<lambda>s.
     bindE (fluid_call (layers_sigmoid fw s)) (\<lambda>temp_f_t.
     bindE (local_var ''temp_g_x'' temp_g_x) (\<lambda>temp_g_x.
     bindE (local_var ''g_m'' g_m) (\<lambda>g_m.
     bindE (fluid_call (var_add fw temp_g_x g_m)) (\<lambda>s.
     bindE (fluid_call (layers_tanh fw s)) (\<lambda>temp_g_t.
     bindE (local_var ''m_m'' m_m) (\<lambda>m_m.
     bindE (fluid_call (layers_tanh fw m_m)) (\<lambda>tm.
     bindE (fluid_call (var_mul fw temp_f_t tm)) (\<lambda>l.
     bindE (fluid_call (var_mul fw temp_i_t temp_g_t)) (\<lambda>r.
     fluid_call (var_add fw l r))))))))))))))))))))"

text \<open>Lines 199 to 208: the output gate and the output.\<close>

definition output_of ::
  "'t fluid \<Rightarrow> EideticLSTMCell \<Rightarrow> 't option \<Rightarrow> 't \<Rightarrow> 't \<Rightarrow> 't \<Rightarrow> 't result" where
  "output_of fw self o_x o_h new_cell new_global_memory =
     bindE (conv fw self 3 new_cell (output_channels self) (kernel_shape self)) (\<lambda>o_c.
     bindE (conv fw self 4 new_global_memory (output_channels self) (kernel_shape self))
       (\<lambda>o_m.
     bindE (local_var ''o_x'' o_x) (\<lambda>o_x.
     bindE (fluid_call (var_add fw o_x o_h)) (\<lambda>s.
     bindE (tensor_arg o_c) (\<lambda>o_c.
     bindE (fluid_call (var_add fw s o_c)) (\<lambda>s.
     bindE (tensor_arg o_m) (\<lambda>o_m.
     bindE (fluid_call (var_add fw s o_m)) (\<lambda>s.
     bindE (fluid_call (layers_tanh fw s)) (\<lambda>output_gate.
     bindE (fluid_call (layers_concat fw [new_cell, new_global_memory] (-1))) (\<lambda>memory.
     bindE (conv fw self 5 memory (output_channels self) (KInt 1)) (\<lambda>memory.
     bindE (tensor_arg memory) (\<lambda>memory.
     bindE (fluid_call (layers_tanh fw memory)) (\<lambda>tm.
     bindE (fluid_call (layers_sigmoid fw output_gate)) (\<lambda>sg.
     fluid_call (var_mul fw tm sg)))))))))))))))"

definition call ::
  "'t fluid \<Rightarrow> EideticLSTMCell \<Rightarrow> 't \<Rightarrow> 't \<Rightarrow> 't \<Rightarrow> 't \<Rightarrow> 't \<Rightarrow> ('t \<times> 't \<times> 't) result" where
  "call fw self inputs hidden cell global_memory eidetic_cell =
     bindE (hidden_gates fw self hidden) (\<lambda>(i_h, g_h, r_h, o_h).
     bindE (conv fw self 1 inputs (7 * output_channels self) (kernel_shape self))
       (\<lambda>new_inputs.
     bindE (input_gates fw self new_inputs)
       (\<lambda>(i_x, g_x, r_x, o_x, temp_i_x, temp_g_x, temp_f_x).
     bindE (new_cell_of fw i_x g_x r_x i_h g_h r_h cell eidetic_cell) (\<lambda>new_cell.
     bindE (new_global_memory_of fw self temp_i_x temp_g_x temp_f_x global_memory)
       (\<lambda>new_global_memory.
     bindE (output_of fw self o_x o_h new_cell new_global_memory) (\<lambda>output.
     Inr (output, new_cell, new_global_memory)))))))"

section \<open>The tensor framework used by the ECO network\<close>

text \<open>
  \<open>ECO.py\<close> builds its layers from \<open>paddle\<close> 2.0. Again the framework is a parameter.
  A layer that holds parameters takes the name under which the model registers it (its
  key in the state dictionary), so that two layers with equal arguments are two layers.
  \<open>nn_Conv2D\<close> takes \<open>in_channels\<close>, \<open>out_channels\<close>, \<open>kernel_size\<close>, \<open>stride\<close>, \<open>padding\<close>
  and \<open>groups\<close> (the model always passes \<open>bias_attr=False\<close>); the pooling layers take
  \<open>kernel_size\<close>, \<open>stride\<close> and \<open>padding\<close>; \<open>nn_Linear\<close> takes \<open>in_features\<close> and
  \<open>out_features\<close>. Dropout draws from a random state \<open>'g\<close> and returns the next one.
\<close>

record ('t, 'g) paddle =
  p_shape :: "'t \<Rightarrow> int list"
  nn_Conv2D :: "string \<Rightarrow> int \<Rightarrow> int \<Rightarrow> int \<Rightarrow> int \<Rightarrow> int \<Rightarrow> int \<Rightarrow> 't \<Rightarrow> 't option"
  nn_BatchNorm2D :: "string \<Rightarrow> int \<Rightarrow> 't \<Rightarrow> 't option"
  nn_AvgPool2D :: "int \<Rightarrow> int \<Rightarrow> int \<Rightarrow> 't \<Rightarrow> 't option"
  nn_MaxPool2D :: "int \<Rightarrow> int \<Rightarrow> int \<Rightarrow> 't \<Rightarrow> 't option"
  nn_AdaptiveAvgPool2D :: "int \<Rightarrow> 't \<Rightarrow> 't option"
  nn_Linear :: "string \<Rightarrow> int \<Rightarrow> int \<Rightarrow> 't \<Rightarrow> 't option"
  F_relu :: "'t \<Rightarrow> 't option"
  F_dropout :: "'g \<Rightarrow> 't \<Rightarrow> real \<Rightarrow> ('t \<times> 'g) option"
  F_softmax :: "'t \<Rightarrow> 't option"
  paddle_concat :: "'t list \<Rightarrow> int \<Rightarrow> 't option"
  paddle_reshape :: "'t \<Rightarrow> int list \<Rightarrow> 't option"
  paddle_mean :: "'t \<Rightarrow> int \<Rightarrow> 't option"
  metric_accuracy :: "'t \<Rightarrow> 't \<Rightarrow> 't option"

text \<open>A layer is its forward function.\<close>

type_synonym 't layer = "'t \<Rightarrow> 't result"

definition nn_layer :: "('t \<Rightarrow> 't option) \<Rightarrow> 't layer" where
  "nn_layer f x = fw_call (f x)"

text \<open>\<open>paddle.nn.Sequential\<close>: the layers in order, each on the previous one's output.\<close>

fun Sequential :: "'t layer list \<Rightarrow> 't layer" where
  "Sequential [] x = Inr x"
| "Sequential (l # ls) x = bindE (l x) (Sequential ls)"

section \<open>ConvBNLayer\<close>

record 't ConvBNLayer =
  cb_conv :: "'t \<Rightarrow> 't option"
  cb_batch_norm :: "'t \<Rightarrow> 't option"

definition ConvBNLayer_init ::
  "('t, 'g) paddle \<Rightarrow> string \<Rightarrow> int \<Rightarrow> int \<Rightarrow> int \<Rightarrow> int \<Rightarrow> int \<Rightarrow> int \<Rightarrow> 't ConvBNLayer" where
  "ConvBNLayer_init P nm num_channels num_filters filter_size stride groups padding =
     \<lparr>cb_conv = nn_Conv2D P (nm @ ''._conv'') num_channels num_filters filter_size
                  stride padding groups,
      cb_batch_norm = nn_BatchNorm2D P (nm @ ''._batch_norm'') num_filters\<rparr>"

definition ConvBNLayer_forward :: "('t, 'g) paddle \<Rightarrow> 't ConvBNLayer \<Rightarrow> 't layer" where
  "ConvBNLayer_forward P self inputs =
     bindE (fw_call (cb_conv self inputs)) (\<lambda>y.
     bindE (fw_call (F_relu P y)) (\<lambda>y.
     bindE (fw_call (cb_batch_norm self y)) (\<lambda>y.
     fw_call (F_relu P y))))"

text \<open>
  Every use in the model passes \<open>num_channels\<close>, \<open>num_filters\<close>, \<open>filter_size\<close>, \<open>stride\<close>
  and \<open>padding\<close> and leaves \<open>groups\<close> at its default 1.
\<close>

definition ConvBN ::
  "('t, 'g) paddle \<Rightarrow> string \<Rightarrow> int \<Rightarrow> int \<Rightarrow> int \<Rightarrow> int \<Rightarrow> int \<Rightarrow> 't layer" where
  "ConvBN P nm num_channels num_filters filter_size stride padding =
     ConvBNLayer_forward P
       (ConvBNLayer_init P nm num_channels num_filters filter_size stride 1 padding)"

section \<open>The Inception blocks\<close>

record 't Inception =
  branch1 :: "'t layer"
  branch2 :: "'t layer"
  branch3 :: "'t layer"
  branch4 :: "'t layer"

definition Inception_init ::
  "('t, 'g) paddle \<Rightarrow> string \<Rightarrow> int \<Rightarrow> int \<Rightarrow> int \<Rightarrow> int \<Rightarrow> int \<Rightarrow> int \<Rightarrow> int \<Rightarrow> int
     \<Rightarrow> 't Inception" where
  "Inception_init P nm num_channels ch1x1 ch3x3reduced ch3x3 doublech3x3reduced
       doublech3x3_1 doublech3x3_2 pool_proj =
     \<lparr>branch1 = ConvBN P (nm @ ''.branch1'') num_channels ch1x1 1 1 0,
      branch2 = Sequential
        [ConvBN P (nm @ ''.branch2.0'') num_channels ch3x3reduced 1 1 0,
         ConvBN P (nm @ ''.branch2.1'') ch3x3reduced ch3x3 3 1 1],
      branch3 = Sequential
        [ConvBN P (nm @ ''.branch3.0'') num_channels doublech3x3reduced 1 1 0,
         ConvBN P (nm @ ''.branch3.1'') doublech3x3reduced doublech3x3_1 3 1 1,
         ConvBN P (nm @ ''.branch3.2'') doublech3x3_1 doublech3x3_2 3 1 1],
      branch4 = Sequential
        [nn_layer (nn_AvgPool2D P 3 1 1),
         ConvBN P (nm @ ''.branch4.1'') num_channels pool_proj 1 1 0]\<rparr>"

definition Inception_forward :: "('t, 'g) paddle \<Rightarrow> 't Inception \<Rightarrow> 't layer" where
  "Inception_forward P self inputs =
     bindE (branch1 self inputs) (\<lambda>b1.
     bindE (branch2 self inputs) (\<lambda>b2.
     bindE (branch3 self inputs) (\<lambda>b3.
     bindE (branch4 self inputs) (\<lambda>b4.
     fw_call (paddle_concat P [b1, b2, b3, b4] 1)))))"

record 't Inception3c =
  c3_branch1 :: "'t layer"
  c3_branch2 :: "'t layer"
  c3_branch3 :: "'t layer"
  c3_branch4 :: "'t layer"

definition Inception3c_init ::
  "('t, 'g) paddle \<Rightarrow> string \<Rightarrow> int \<Rightarrow> int \<Rightarrow> int \<Rightarrow> int \<Rightarrow> int \<Rightarrow> int \<Rightarrow> 't Inception3c" where
  "Inception3c_init P nm num_channels ch3x3reduced ch3x3 doublech3x3reduced
       doublech3x3_1 doublech3x3_2 =
     \<lparr>c3_branch1 = Sequential
        [ConvBN P (nm @ ''.branch1.0'') num_channels ch3x3reduced 1 1 0,
         ConvBN P (nm @ ''.branch1.1'') ch3x3reduced ch3x3 3 2 1],
      c3_branch2 = Sequential
        [ConvBN P (nm @ ''.branch2.0'') num_channels doublech3x3reduced 1 1 0,
         ConvBN P (nm @ ''.branch2.1'') doublech3x3reduced doublech3x3_1 3 1 1],
      c3_branch3 = Sequential
        [ConvBN P (nm @ ''.branch3.0'') doublech3x3_1 doublech3x3_2 3 2 1],
      c3_branch4 = nn_layer (nn_MaxPool2D P 3 2 1)\<rparr>"

text \<open>\<open>Inception3c.forward\<close> returns the pair \<open>(outputs, branch2)\<close>.\<close>

definition Inception3c_forward ::
  "('t, 'g) paddle \<Rightarrow> 't Inception3c \<Rightarrow> 't \<Rightarrow> ('t \<times> 't) result" where
  "Inception3c_forward P self inputs =
     bindE (c3_branch1 self inputs) (\<lambda>b1.
     bindE (c3_branch2 self inputs) (\<lambda>b2.
     bindE (c3_branch3 self b2) (\<lambda>b3.
     bindE (c3_branch4 self inputs) (\<lambda>b4.
     bindE (fw_call (paddle_concat P [b1, b3, b4] 1)) (\<lambda>outputs.
     Inr (outputs, b2))))))"

record 't Inception4e =
  e4_branch1 :: "'t layer"
  e4_branch2 :: "'t layer"
  e4_branch3 :: "'t layer"

definition Inception4e_init ::
  "('t, 'g) paddle \<Rightarrow> string \<Rightarrow> int \<Rightarrow> int \<Rightarrow> int \<Rightarrow> int \<Rightarrow> int \<Rightarrow> int \<Rightarrow> int
     \<Rightarrow> 't Inception4e" where
  "Inception4e_init P nm num_channels ch3x3reduced ch3x3 doublech3x3reduced
       doublech3x3_1 doublech3x3_2 pool_proj =
     \<lparr>e4_branch1 = Sequential
        [ConvBN P (nm @ ''.branch1.0'') num_channels ch3x3reduced 1 1 0,
         ConvBN P (nm @ ''.branch1.1'') ch3x3reduced ch3x3 3 2 1],
      e4_branch2 = Sequential
        [ConvBN P (nm @ ''.branch2.0'') num_channels doublech3x3reduced 1 1 0,
         ConvBN P (nm @ ''.branch2.1'') doublech3x3reduced doublech3x3_1 3 1 1,
         ConvBN P (nm @ ''.branch2.2'') doublech3x3_1 doublech3x3_2 3 2 1],
      e4_branch3 = nn_layer (nn_MaxPool2D P 3 2 1)\<rparr>"

definition Inception4e_forward :: "('t, 'g) paddle \<Rightarrow> 't Inception4e \<Rightarrow> 't layer" where
  "Inception4e_forward P self inputs =
     bindE (e4_branch1 self inputs) (\<lambda>b1.
     bindE (e4_branch2 self inputs) (\<lambda>b2.
     bindE (e4_branch3 self inputs) (\<lambda>b3.
     fw_call (paddle_concat P [b1, b2, b3] 1))))"

record 't Inception5a =
  a5_branch1 :: "'t layer"
  a5_branch2 :: "'t layer"
  a5_branch3 :: "'t layer"
  a5_branch4 :: "'t layer"

definition Inception5a_init ::
  "('t, 'g) paddle \<Rightarrow> string \<Rightarrow> int \<Rightarrow> int \<Rightarrow> int \<Rightarrow> int \<Rightarrow> int \<Rightarrow> int \<Rightarrow> int \<Rightarrow> int
     \<Rightarrow> 't Inception5a" where
  "Inception5a_init P nm num_channels ch1x1 ch3x3reduced ch3x3 doublech3x3reduced
       doublech3x3_1 doublech3x3_2 pool_proj =
     \<lparr>a5_branch1 = ConvBN P (nm @ ''.branch1'') num_channels ch1x1 1 1 0,
      a5_branch2 = Sequential
        [ConvBN P (nm @ ''.branch2.0'') num_channels ch3x3reduced 1 1 0,
         ConvBN P (nm @ ''.branch2.1'') ch3x3reduced ch3x3 3 1 1],
      a5_branch3 = Sequential
        [ConvBN P (nm @ ''.branch3.0'') num_channels doublech3x3reduced 1 1 0,
         ConvBN P (nm @ ''.branch3.1'') doublech3x3reduced doublech3x3_1 3 1 1,
         ConvBN P (nm @ ''.branch3.2'') doublech3x3_1 doublech3x3_2 3 1 1],
      a5_branch4 = Sequential
        [nn_layer (nn_AvgPool2D P 3 1 1),
         ConvBN P (nm @ ''.branch4.1'') num_channels pool_proj 1 1 0]\<rparr>"

definition Inception5a_forward :: "('t, 'g) paddle \<Rightarrow> 't Inception5a \<Rightarrow> 't layer" where
  "Inception5a_forward P self inputs =
     bindE (a5_branch1 self inputs) (\<lambda>b1.
     bindE (a5_branch2 self inputs) (\<lambda>b2.
     bindE (a5_branch3 self inputs) (\<lambda>b3.
     bindE (a5_branch4 self inputs) (\<lambda>b4.
     fw_call (paddle_concat P [b1, b2, b3, b4] 1)))))"

record 't Inception5b =
  b5_branch1 :: "'t layer"
  b5_branch2 :: "'t layer"
  b5_branch3 :: "'t layer"
  b5_branch4 :: "'t layer"

definition Inception5b_init ::
  "('t, 'g) paddle \<Rightarrow> string \<Rightarrow> int \<Rightarrow> int \<Rightarrow> int \<Rightarrow> int \<Rightarrow> int \<Rightarrow> int \<Rightarrow> int \<Rightarrow> int
     \<Rightarrow> 't Inception5b" where
  "Inception5b_init P nm num_channels ch1x1 ch3x3reduced ch3x3 doublech3x3reduced
       doublech3x3_1 doublech3x3_2 pool_proj =
     \<lparr>b5_branch1 = ConvBN P (nm @ ''.branch1'') num_channels ch1x1 1 1 0,
      b5_branch2 = Sequential
        [ConvBN P (nm @ ''.branch2.0'') num_channels ch3x3reduced 1 1 0,
         ConvBN P (nm @ ''.branch2.1'') ch3x3reduced ch3x3 3 1 1],
      b5_branch3 = Sequential
        [ConvBN P (nm @ ''.branch3.0'') num_channels doublech3x3reduced 1 1 0,
         ConvBN P (nm @ ''.branch3.1'') doublech3x3reduced doublech3x3_1 3 1 1,
         ConvBN P (nm @ ''.branch3.2'') doublech3x3_1 doublech3x3_2 3 1 1],
      b5_branch4 = Sequential
        [nn_layer (nn_MaxPool2D P 3 1 1),
         ConvBN P (nm @ ''.branch4.1'') num_channels pool_proj 1 1 0]\<rparr>"

definition Inception5b_forward :: "('t, 'g) paddle \<Rightarrow> 't Inception5b \<Rightarrow> 't layer" where
  "Inception5b_forward P self inputs =
     bindE (b5_branch1 self inputs) (\<lambda>b1.
     bindE (b5_branch2 self inputs) (\<lambda>b2.
     bindE (b5_branch3 self inputs) (\<lambda>b3.
     bindE (b5_branch4 self inputs) (\<lambda>b4.
     fw_call (paddle_concat P [b1, b2, b3, b4] 1)))))"

text \<open>
  The glossary's reading of an Inception block, as a function of its list of branches:
  every branch is applied to the block's input, and the outputs are concatenated along
  the channel axis 1, in the order of the branches.
\<close>

fun apply_branches :: "'t layer list \<Rightarrow> 't \<Rightarrow> 't list result" where
  "apply_branches [] x = Inr []"
| "apply_branches (b # bs) x =
     bindE (b x) (\<lambda>y. bindE (apply_branches bs x) (\<lambda>ys. Inr (y # ys)))"

definition parallel_concat :: "('t, 'g) paddle \<Rightarrow> 't layer list \<Rightarrow> 't layer" where
  "parallel_concat P bs x =
     bindE (apply_branches bs x) (\<lambda>ys. fw_call (paddle_concat P ys 1))"

section \<open>GoogLeNet\<close>

text \<open>
  The model object. \<open>res3d\<close> is built by \<open>Res3D.ResNet3D\<close>, a module of the repository
  that is not among its sources: its constructor is an argument of \<open>GoogLeNet_init\<close>.
  The mutable attribute \<open>out_3d\<close> is part of the state below; the constructor's
  argument \<open>weight_devay\<close> is never used and is left out.
\<close>

record 't GoogLeNet =
  seg_num :: int
  seglen :: int
  modality :: string
  channels :: int
  part1_list :: "'t layer"
  part2_list :: "'t layer"
  googLeNet_part1 :: "'t layer"
  before3d :: "'t Inception3c"
  googLeNet_part2 :: "'t layer"
  googLeNet_part3 :: "'t layer"
  res3d :: "'t layer"
  out_linear :: "'t layer"

definition GoogLeNet_init ::
  "('t, 'g) paddle \<Rightarrow> (string \<Rightarrow> string \<Rightarrow> int \<Rightarrow> 't layer) \<Rightarrow> int \<Rightarrow> int \<Rightarrow> int \<Rightarrow> string
     \<Rightarrow> 't GoogLeNet" where
  "GoogLeNet_init P ResNet3D class_dim sn sl md =
     (let ch = (if md = ''RGB'' then 3 * sl else 2 * sl);
          p1 = Sequential
            [ConvBN P ''part1_list.0'' ch 64 7 2 3,
             nn_layer (nn_MaxPool2D P 3 2 1)];
          p2 = Sequential
            [ConvBN P ''part2_list.0'' 64 64 1 1 0,
             ConvBN P ''part2_list.1'' 64 192 3 1 1,
             nn_layer (nn_MaxPool2D P 3 2 1)]
      in \<lparr>seg_num = sn, seglen = sl, modality = md, channels = ch,
          part1_list = p1,
          part2_list = p2,
          googLeNet_part1 = Sequential
            [p1, p2,
             Inception_forward P
               (Inception_init P ''googLeNet_part1.inception_3a'' 192 64 64 64 64 96 96 32),
             Inception_forward P
               (Inception_init P ''googLeNet_part1.inception_3b'' 256 64 64 96 64 96 96 64)],
          before3d = Inception3c_init P ''before3d'' 320 128 160 64 96 96,
          googLeNet_part2 = Sequential
            [Inception_forward P
               (Inception_init P ''googLeNet_part2.inception_4a'' 576 224 64 96 96 128 128 128),
             Inception_forward P
               (Inception_init P ''googLeNet_part2.inception_4b'' 576 192 96 128 96 128 128 128),
             Inception_forward P
               (Inception_init P ''googLeNet_part2.inception_4c''
                  576 160 128 160 128 160 160 128),
             Inception_forward P
               (Inception_init P ''googLeNet_part2.inception_4d''
                  608 96 128 192 160 192 192 128)],
          googLeNet_part3 = Sequential
            [Inception4e_forward P
               (Inception4e_init P ''googLeNet_part3.inception_4e'' 608 128 192 192 256 256 608),
             Inception5a_forward P
               (Inception5a_init P ''googLeNet_part3.inception_5a''
                  1056 352 192 320 160 224 224 128),
             Inception5b_forward P
               (Inception5b_init P ''googLeNet_part3.inception_5b''
                  1024 352 192 320 192 224 224 128),
             nn_layer (nn_AdaptiveAvgPool2D P 1)],
          res3d = ResNet3D ''resnet'' ''RGB'' 96,
          out_linear = nn_layer (nn_Linear P ''out'' 1536 class_dim)\<rparr>)"

text \<open>
  The state \<open>forward\<close> works on. \<open>out_3d\<close> is the Python list \<open>self.out_3d\<close>; an entry is
  a tensor object, that is a reference together with the tensor it holds, and
  \<open>stop_gradient\<close> is the set of references whose attribute \<open>stop_gradient\<close> the model
  has set. \<open>next_ref\<close> is the reference the next tensor kept in the list will get, and
  \<open>rng\<close> the random state dropout draws from. \<open>__init__\<close> leaves the list empty.
\<close>

record ('t, 'g) net_state =
  out_3d :: "(nat \<times> 't) list"
  stop_gradient :: "nat set"
  next_ref :: nat
  rng :: 'g

definition init_state :: "'g \<Rightarrow> ('t, 'g) net_state" where
  "init_state g = \<lparr>out_3d = [], stop_gradient = {}, next_ref = 0, rng = g\<rparr>"

text \<open>
  A method that mutates the state and may raise returns the state it leaves behind
  together with its result or its exception.
\<close>

type_synonym ('s, 'a) prog = "'s \<Rightarrow> 's \<times> 'a result"

definition bindS :: "('s, 'a) prog \<Rightarrow> ('a \<Rightarrow> ('s, 'b) prog) \<Rightarrow> ('s, 'b) prog" where
  "bindS m f s = (case m s of (s', Inl e) \<Rightarrow> (s', Inl e) | (s', Inr v) \<Rightarrow> f v s')"

definition liftE :: "'a result \<Rightarrow> ('s, 'a) prog" where
  "liftE r s = (s, r)"

definition readS :: "('s \<Rightarrow> 'a result) \<Rightarrow> ('s, 'a) prog" where
  "readS f s = (s, f s)"

text \<open>Python's list indexing and the stop of the slice \<open>xs[:k]\<close>.\<close>

definition py_index :: "nat \<Rightarrow> int \<Rightarrow> nat result" where
  "py_index len i =
     (let j = (if i < 0 then i + int len else i)
      in if 0 \<le> j \<and> j < int len then Inr (nat j) else Inl IndexError)"

definition slice_stop :: "int \<Rightarrow> nat \<Rightarrow> nat" where
  "slice_stop k len = (if k < 0 then nat (max (int len + k) 0) else min (nat k) len)"

definition shape_at :: "int list \<Rightarrow> int \<Rightarrow> int result" where
  "shape_at s i = bindE (py_index (length s) i) (\<lambda>j. Inr (s ! j))"

text \<open>The loop \<open>while len(self.out_3d) < self.seg_num: self.out_3d.append(before3d)\<close>.\<close>

function append_until :: "int \<Rightarrow> 'a list \<Rightarrow> 'a \<Rightarrow> 'a list" where
  "append_until n xs b = (if int (length xs) < n then append_until n (xs @ [b]) b else xs)"
  by pat_completeness auto
termination
  by (relation "measure (\<lambda>(n, xs, b). nat (n - int (length xs)))") auto

text \<open>
  Lines 551 to 559. With a full list, the slice assignment
  \<open>self.out_3d[:self.seg_num - 1] = self.out_3d[1:]\<close> puts the tail in front of what the
  slice leaves, the last entry is overwritten and the entry before it is marked; with
  any other length the list is appended to.
\<close>

definition update_out_3d :: "int \<Rightarrow> 't \<Rightarrow> (('t, 'g) net_state, unit) prog" where
  "update_out_3d n b st =
     (let r = next_ref st; st0 = st\<lparr>next_ref := Suc r\<rparr>; xs = out_3d st in
      if int (length xs) = n then
        (let xs1 = tl xs @ drop (slice_stop (n - 1) (length xs)) xs
         in case py_index (length xs1) (n - 1) of
              Inl e \<Rightarrow> (st0\<lparr>out_3d := xs1\<rparr>, Inl e)
            | Inr i \<Rightarrow>
                (let xs2 = xs1[i := (r, b)]
                 in case py_index (length xs2) (n - 2) of
                      Inl e \<Rightarrow> (st0\<lparr>out_3d := xs2\<rparr>, Inl e)
                    | Inr j \<Rightarrow>
                        (st0\<lparr>out_3d := xs2,
                             stop_gradient := insert (fst (xs2 ! j)) (stop_gradient st0)\<rparr>,
                         Inr ())))
      else (st0\<lparr>out_3d := append_until n xs (r, b)\<rparr>, Inr ()))"

text \<open>Lines 543 to 548: the frames are flattened and run through the shared 2D trunk.\<close>

definition segment_features ::
  "('t, 'g) paddle \<Rightarrow> 't GoogLeNet \<Rightarrow> 't \<Rightarrow> ('t \<times> 't) result" where
  "segment_features P self inputs =
     bindE (shape_at (p_shape P inputs) 2) (\<lambda>d2.
     bindE (shape_at (p_shape P inputs) 3) (\<lambda>d3.
     bindE (shape_at (p_shape P inputs) 4) (\<lambda>d4.
     bindE (fw_call (paddle_reshape P inputs [-1, d2, d3, d4])) (\<lambda>inputs.
     bindE (googLeNet_part1 self inputs) (\<lambda>part1.
     Inception3c_forward P (before3d self) part1)))))"

text \<open>Lines 561 to 563: the kept tensors are concatenated along axis 0, left to right.\<close>

fun concat_onto :: "('t, 'g) paddle \<Rightarrow> 't \<Rightarrow> 't list \<Rightarrow> 't result" where
  "concat_onto P y [] = Inr y"
| "concat_onto P y (x # xs) =
     bindE (fw_call (paddle_concat P [y, x] 0)) (\<lambda>y'. concat_onto P y' xs)"

definition dropout :: "('t, 'g) paddle \<Rightarrow> 't \<Rightarrow> real \<Rightarrow> (('t, 'g) net_state, 't) prog" where
  "dropout P x p st =
     (case F_dropout P (rng st) x p of
        None \<Rightarrow> (st, Inl FrameworkError)
      | Some (y, g) \<Rightarrow> (st\<lparr>rng := g\<rparr>, Inr y))"

text \<open>Lines 561 to 576: the 3D stream.\<close>

definition stream_3d ::
  "('t, 'g) paddle \<Rightarrow> 't GoogLeNet \<Rightarrow> (('t, 'g) net_state, 't) prog" where
  "stream_3d P self =
     bindS (readS (\<lambda>st.
       bindE (py_index (length (out_3d st)) 0) (\<lambda>i.
       concat_onto P (snd (out_3d st ! i)) (map snd (tl (out_3d st)))))) (\<lambda>y.
     bindS (liftE (
       bindE (shape_at (p_shape P y) 1) (\<lambda>d1.
       bindE (shape_at (p_shape P y) 2) (\<lambda>d2.
       bindE (shape_at (p_shape P y) 3) (\<lambda>d3.
       bindE (fw_call (paddle_reshape P y [-1, seg_num self, d1, d2, d3])) (\<lambda>y.
       bindE (shape_at (p_shape P y) 0) (\<lambda>e0.
       bindE (shape_at (p_shape P y) 2) (\<lambda>e2.
       bindE (shape_at (p_shape P y) 1) (\<lambda>e1.
       bindE (shape_at (p_shape P y) 3) (\<lambda>e3.
       bindE (shape_at (p_shape P y) 4) (\<lambda>e4.
       bindE (fw_call (paddle_reshape P y [e0, e2, e1, e3, e4])) (\<lambda>y.
       bindE (res3d self y) (\<lambda>out_final_3d.
       bindE (shape_at (p_shape P out_final_3d) 1) (\<lambda>c.
       fw_call (paddle_reshape P out_final_3d [-1, c]))))))))))))))) (\<lambda>out_final_3d.
     bindS (dropout P out_final_3d 0.5) (\<lambda>out_final_3d.
     liftE (
       bindE (shape_at (p_shape P out_final_3d) 1) (\<lambda>c.
       bindE (fw_call (paddle_reshape P out_final_3d [-1, seg_num self, c]))
         (\<lambda>out_final_3d.
       fw_call (paddle_mean P out_final_3d 1)))))))"

text \<open>Lines 579 to 591: the 2D stream.\<close>

definition stream_2d ::
  "('t, 'g) paddle \<Rightarrow> 't GoogLeNet \<Rightarrow> 't \<Rightarrow> (('t, 'g) net_state, 't) prog" where
  "stream_2d P self googleNet_b3d =
     bindS (liftE (
       bindE (googLeNet_part2 self googleNet_b3d) (\<lambda>part2.
       googLeNet_part3 self part2))) (\<lambda>part3.
     bindS (dropout P part3 0.6) (\<lambda>part3.
     liftE (
       bindE (shape_at (p_shape P part3) 1) (\<lambda>c.
       bindE (fw_call (paddle_reshape P part3 [-1, c])) (\<lambda>out_final_2d.
       bindE (shape_at (p_shape P out_final_2d) 1) (\<lambda>c.
       bindE (fw_call (paddle_reshape P out_final_2d [-1, seg_num self, c]))
         (\<lambda>out_final_2d.
       fw_call (paddle_mean P out_final_2d 1))))))))"

text \<open>
  Lines 593 to 603: the fusion and the classifier. The result is \<open>out_final\<close>, with the
  accuracy when a label was given.
\<close>

definition classify ::
  "('t, 'g) paddle \<Rightarrow> 't GoogLeNet \<Rightarrow> 't \<Rightarrow> 't \<Rightarrow> 't option \<Rightarrow> ('t \<times> 't option) result" where
  "classify P self out_final_2d out_final_3d label =
     bindE (fw_call (paddle_concat P [out_final_2d, out_final_3d] 1)) (\<lambda>out_final.
     bindE (out_linear self out_final) (\<lambda>out_final.
     bindE (fw_call (F_softmax P out_final)) (\<lambda>out_final.
     case label of
       Some l \<Rightarrow> bindE (fw_call (metric_accuracy P out_final l)) (\<lambda>acc.
                   Inr (out_final, Some acc))
     | None \<Rightarrow> Inr (out_final, None))))"

definition forward ::
  "('t, 'g) paddle \<Rightarrow> 't GoogLeNet \<Rightarrow> 't \<Rightarrow> 't option
     \<Rightarrow> (('t, 'g) net_state, 't \<times> 't option) prog" where
  "forward P self inputs label =
     bindS (liftE (segment_features P self inputs)) (\<lambda>(googleNet_b3d, b3d).
     bindS (update_out_3d (seg_num self) b3d) (\<lambda>_.
     bindS (stream_3d P self) (\<lambda>out_final_3d.
     bindS (stream_2d P self googleNet_b3d) (\<lambda>out_final_2d.
     liftE (classify P self out_final_2d out_final_3d label)))))"

section \<open>A shape-level interpretation of the two frameworks\<close>

text \<open>
  To run the models on concrete inputs the frameworks are interpreted on shapes: a
  tensor is its shape, and each call returns the shape the framework documents for its
  result, or fails. \<open>reshape\<close> resolves one \<open>-1\<close> from the element count; \<open>matmul\<close> is the
  batched product of rank-3 operands; the same-padded convolutions of \<open>fluid\<close> replace
  the channel dimension (dimension 1 for \<open>conv2d\<close>, whose layout is NCHW, the last one
  for \<open>conv3d\<close> with NDHWC); \<open>split\<close>, \<open>concat\<close> and \<open>mean\<close> count a negative axis from
  the end; the elementwise operators ask for equal shapes; a strided convolution or
  pooling of kernel size \<open>k\<close>, stride \<open>s\<close> and padding \<open>p\<close> maps an extent \<open>h\<close> to
  \<open>(h + 2 p - k) div s + 1\<close>.
\<close>

definition infer_shape :: "int \<Rightarrow> int list \<Rightarrow> int list option" where
  "infer_shape n s =
     (let p = prod_list (filter (\<lambda>d. d \<noteq> -1) s) in
      if \<not> list_all (\<lambda>d. d = -1 \<or> 0 < d) s then None
      else if count_list s (-1) = 0 then (if p = n then Some s else None)
      else if count_list s (-1) = 1 \<and> n mod p = 0
        then Some (map (\<lambda>d. if d = -1 then n div p else d) s)
      else None)"

definition axis_index :: "int \<Rightarrow> nat \<Rightarrow> nat option" where
  "axis_index axis rank =
     (let i = (if axis < 0 then axis + int rank else axis)
      in if 0 \<le> i \<and> i < int rank then Some (nat i) else None)"

definition shape_matmul :: "int list \<Rightarrow> int list \<Rightarrow> bool \<Rightarrow> bool \<Rightarrow> int list option" where
  "shape_matmul x y tx ty =
     (if length x = 3 \<and> length y = 3 then
        (let m = (if tx then x ! 2 else x ! 1); k = (if tx then x ! 1 else x ! 2);
             k' = (if ty then y ! 2 else y ! 1); n = (if ty then y ! 1 else y ! 2)
         in if x ! 0 = y ! 0 \<and> k = k' then Some [x ! 0, m, n] else None)
      else None)"

definition shape_split :: "int list \<Rightarrow> int \<Rightarrow> int \<Rightarrow> int list list option" where
  "shape_split t num axis =
     (case axis_index axis (length t) of
        None \<Rightarrow> None
      | Some i \<Rightarrow>
          if 0 < num \<and> (t ! i) mod num = 0
          then Some (replicate (nat num) (t[i := (t ! i) div num]))
          else None)"

definition shape_concat :: "int list list \<Rightarrow> int \<Rightarrow> int list option" where
  "shape_concat ts axis =
     (case ts of
        [] \<Rightarrow> None
      | t # rest \<Rightarrow>
          (case axis_index axis (length t) of
             None \<Rightarrow> None
           | Some i \<Rightarrow>
               if list_all (\<lambda>u. length u = length t \<and> u[i := 0] = t[i := 0]) rest
               then Some (t[i := sum_list (map (\<lambda>u. u ! i) ts)])
               else None))"

definition shape_mean :: "int list \<Rightarrow> int \<Rightarrow> int list option" where
  "shape_mean t axis =
     (case axis_index axis (length t) of
        None \<Rightarrow> None
      | Some i \<Rightarrow> Some (take i t @ drop (Suc i) t))"

definition shape_conv_same :: "nat \<Rightarrow> nat \<Rightarrow> int list \<Rightarrow> int \<Rightarrow> int list option" where
  "shape_conv_same rank ch t oc =
     (if length t = rank \<and> 0 < oc \<and> list_all (\<lambda>d. 0 < d) t then Some (t[ch := oc])
      else None)"

text \<open>
  A failed shape rule of \<open>fluid\<close> is a \<open>ValueError\<close> of the framework, except for
  \<open>split\<close>, whose divisibility check is an assertion. A convolution also asks for a
  kernel tuple of as many entries as it has spatial dimensions.
\<close>

definition or_raise :: "'a outcome \<Rightarrow> 'a option \<Rightarrow> 'a outcome" where
  "or_raise exc r = (case r of None \<Rightarrow> exc | Some v \<Rightarrow> Returns v)"

definition kernel_fits :: "nat \<Rightarrow> ksize \<Rightarrow> bool" where
  "kernel_fits n ks = (case ks of KInt k \<Rightarrow> True | KTuple l \<Rightarrow> length l = n)"

definition shape_fluid :: "int list fluid" where
  "shape_fluid =
     \<lparr>tshape = (\<lambda>t. t),
      layers_layer_norm = (\<lambda>site t. Returns t),
      layers_reshape = (\<lambda>t s. or_raise RaisesValueError (infer_shape (prod_list t) s)),
      layers_matmul = (\<lambda>x y tx ty. or_raise RaisesValueError (shape_matmul x y tx ty)),
      layers_softmax = (\<lambda>t axis. Returns t),
      layers_conv2d = (\<lambda>site t oc ks.
        if kernel_fits 2 ks then or_raise RaisesValueError (shape_conv_same 4 1 t oc)
        else RaisesValueError),
      layers_conv3d = (\<lambda>site t oc ks.
        if kernel_fits 3 ks then or_raise RaisesValueError (shape_conv_same 5 4 t oc)
        else RaisesValueError),
      layers_split = (\<lambda>t num axis. or_raise RaisesOther (shape_split t num axis)),
      layers_sigmoid = Returns,
      layers_tanh = Returns,
      layers_concat = (\<lambda>ts axis. or_raise RaisesValueError (shape_concat ts axis)),
      var_add = (\<lambda>x y. if x = y then Returns x else RaisesValueError),
      var_mul = (\<lambda>x y. if x = y then Returns x else RaisesValueError),
      var_add_scalar = (\<lambda>x r. Returns x)\<rparr>"

definition window :: "int \<Rightarrow> int \<Rightarrow> int \<Rightarrow> int \<Rightarrow> int" where
  "window k s p h = (h + 2 * p - k) div s + 1"

definition shape_window :: "int \<Rightarrow> int \<Rightarrow> int \<Rightarrow> int \<Rightarrow> int list \<Rightarrow> int list option" where
  "shape_window oc k s p t =
     (if length t = 4 \<and> 0 < s \<and> k \<le> t ! 2 + 2 * p \<and> k \<le> t ! 3 + 2 * p
      then Some [t ! 0, oc, window k s p (t ! 2), window k s p (t ! 3)]
      else None)"

definition shape_paddle :: "(int list, unit) paddle" where
  "shape_paddle =
     \<lparr>p_shape = (\<lambda>t. t),
      nn_Conv2D = (\<lambda>nm cin cout k s p g t.
        if length t = 4 \<and> t ! 1 = cin \<and> 0 < cout then shape_window cout k s p t else None),
      nn_BatchNorm2D = (\<lambda>nm nf t. if length t = 4 \<and> t ! 1 = nf then Some t else None),
      nn_AvgPool2D = (\<lambda>k s p t. if length t = 4 then shape_window (t ! 1) k s p t else None),
      nn_MaxPool2D = (\<lambda>k s p t. if length t = 4 then shape_window (t ! 1) k s p t else None),
      nn_AdaptiveAvgPool2D = (\<lambda>n t. if length t = 4 then Some [t ! 0, t ! 1, n, n] else None),
      nn_Linear = (\<lambda>nm fin fout t.
        if t \<noteq> [] \<and> last t = fin then Some (butlast t @ [fout]) else None),
      F_relu = Some,
      F_dropout = (\<lambda>g t p. Some (t, g)),
      F_softmax = Some,
      paddle_concat = shape_concat,
      paddle_reshape = (\<lambda>t s. infer_shape (prod_list t) s),
      paddle_mean = shape_mean,
      metric_accuracy = (\<lambda>x l. Some [1])\<rparr>"


section \<open>Example objects\<close>

text \<open>
  A 3D cell with two output channels, as \<open>Eidetic3DLSTMCell\<close> builds it, and the shape of
  a 3D ResNet head that maps \<open>(N, 96, D, H, W)\<close> to \<open>(N, 512)\<close>.
\<close>

definition cell3d :: EideticLSTMCell where
  "cell3d = \<lparr>conv_ndims = 3, input_shape = [2, 4, 4, 3], output_channels = 2,
             kernel_shape = KTuple [2, 5, 5], layer_norm = True, norm_gain = 1,
             norm_shift = 0, forget_bias = 1, layer_name = ''eidetic_3d_lstm_cell''\<rparr>"

definition shape_ResNet3D :: "string \<Rightarrow> string \<Rightarrow> int \<Rightarrow> int list layer" where
  "shape_ResNet3D nm md ch t =
     (if length t = 5 \<and> t ! 1 = ch then Inr [t ! 0, 512] else Inl FrameworkError)"

definition eco2 :: "int list GoogLeNet" where
  "eco2 = GoogLeNet_init shape_paddle shape_ResNet3D 101 2 1 ''RGB''"

section \<open>Properties of the Eidetic LSTM cell\<close>

lemma bindE_simps [simp]:
  "bindE (Inl e) f = Inl e"
  "bindE (Inr v) f = f v"
  by (simp_all add: bindE_def)

lemma bindE_eq_Inr:
  "bindE m f = Inr y \<longleftrightarrow> (\<exists>v. m = Inr v \<and> f v = Inr y)"
  by (cases m) simp_all

lemma bindE_eq_Inl:
  "bindE m f = Inl e \<longleftrightarrow> m = Inl e \<or> (\<exists>v. m = Inr v \<and> f v = Inl e)"
  by (cases m) simp_all

lemma fw_call_eq_Inr [simp]: "fw_call r = Inr v \<longleftrightarrow> r = Some v"
  by (cases r) (simp_all add: fw_call_def)

lemma fw_call_eq_Inl [simp]: "fw_call r = Inl e \<longleftrightarrow> r = None \<and> e = FrameworkError"
  by (cases r) (auto simp: fw_call_def)

lemma fluid_call_eq_Inr [simp]: "fluid_call r = Inr v \<longleftrightarrow> r = Returns v"
  by (cases r) (simp_all add: fluid_call_def)


lemma tensor_arg_eq_Inr [simp]: "tensor_arg x = Inr t \<longleftrightarrow> x = Some t"
  by (cases x) (simp_all add: tensor_arg_def)

lemma tensor_arg_eq_Inl [simp]: "tensor_arg x = Inl e \<longleftrightarrow> x = None \<and> e = NoneOperand"
  by (cases x) (auto simp: tensor_arg_def)

lemma local_var_eq_Inr [simp]: "local_var nm x = Inr t \<longleftrightarrow> x = Some t"
  by (cases x) (simp_all add: local_var_def)

lemma local_var_eq_Inl [simp]:
  "local_var nm x = Inl e \<longleftrightarrow> x = None \<and> e = UnboundLocalError nm"
  by (cases x) (auto simp: local_var_def)

lemma unpack4_eq_Inr:
  "unpack4 xs = Inr (a, b, c, d) \<longleftrightarrow> xs = [a, b, c, d]"
proof
  assume h: "unpack4 xs = Inr (a, b, c, d)"
  then have l: "length xs = 4" by (simp add: unpack4_def split: if_splits)
  then obtain x0 x1 x2 x3 where "xs = [x0, x1, x2, x3]"
    by (auto simp: length_Suc_conv numeral_eq_Suc)
  with h show "xs = [a, b, c, d]" by (simp add: unpack4_def)
qed (simp add: unpack4_def)

lemma unpack7_eq_Inr:
  "unpack7 xs = Inr (a, b, c, d, e, f, g) \<longleftrightarrow> xs = [a, b, c, d, e, f, g]"
proof
  assume h: "unpack7 xs = Inr (a, b, c, d, e, f, g)"
  then have l: "length xs = 7" by (simp add: unpack7_def split: if_splits)
  then obtain x0 x1 x2 x3 x4 x5 x6 where "xs = [x0, x1, x2, x3, x4, x5, x6]"
    by (auto simp: length_Suc_conv numeral_eq_Suc)
  with h show "xs = [a, b, c, d, e, f, g]" by (simp add: unpack7_def)
qed (simp add: unpack7_def)

lemma conv_eq_Inr_Some:
  "conv fw self site x oc ks = Inr (Some y) \<longleftrightarrow>
     (conv_ndims self = 2 \<and> layers_conv2d fw site x oc ks = Returns y)
   \<or> (conv_ndims self = 3 \<and> layers_conv3d fw site x oc ks = Returns y)"
  by (cases "layers_conv2d fw site x oc ks"; cases "layers_conv3d fw site x oc ks")
     (auto simp: conv_def fluid_call_def)

lemma conv_eq_Inr_None:
  "conv fw self site x oc ks = Inr None \<longleftrightarrow> conv_ndims self \<noteq> 2 \<and> conv_ndims self \<noteq> 3"
  by (cases "layers_conv2d fw site x oc ks"; cases "layers_conv3d fw site x oc ks")
     (auto simp: conv_def fluid_call_def)

lemma norm_layer_eq_Inr [simp]:
  "norm_layer fw site inp = Inr n \<longleftrightarrow> (\<exists>t. inp = Some t \<and> layers_layer_norm fw site t = Returns n)"
  by (simp add: norm_layer_def bindE_eq_Inr)

lemma map_sum_id_Some_eq_Inr:
  "map_sum id Some m = Inr v \<longleftrightarrow> (\<exists>t. m = Inr t \<and> v = Some t)"
  by (cases m) auto

lemma hidden_gates_Inr:
  assumes "layer_norm self"
    and "hidden_gates fw self hidden = Inr (i_h, g_h, r_h, o_h)"
  shows "\<exists>hc hn. conv fw self 0 hidden (4 * output_channels self) (kernel_shape self) = Inr (Some hc)
     \<and> layers_layer_norm fw 0 hc = Returns hn
     \<and> layers_split fw hn 4 (-1) = Returns [i_h, g_h, r_h, o_h]"
  using assms
  by (auto simp: hidden_gates_def bindE_eq_Inr unpack4_eq_Inr map_sum_id_Some_eq_Inr)

lemma input_gates_Inr:
  assumes "layer_norm self"
    and "input_gates fw self new_inputs = Inr (i_x, g_x, r_x, o_x, temp_i_x, temp_g_x, temp_f_x)"
  shows "\<exists>xc xn a b c d e f g. new_inputs = Some xc
     \<and> layers_layer_norm fw 1 xc = Returns xn
     \<and> layers_split fw xn 7 (-1) = Returns [a, b, c, d, e, f, g]
     \<and> i_x = Some a \<and> g_x = Some b \<and> r_x = Some c \<and> o_x = Some d
     \<and> temp_i_x = Some e \<and> temp_g_x = Some f \<and> temp_f_x = Some g"
  using assms
  by (auto simp: input_gates_def bindE_eq_Inr unpack7_eq_Inr)

lemma new_cell_of_Inr:
  assumes "new_cell_of fw (Some i_x) (Some g_x) (Some r_x) i_h g_h r_h cell eidetic_cell = Inr new_cell"
  shows "\<exists>si i_t sr r_t sg g_t a ca n ig.
       var_add fw i_x i_h = Returns si \<and> layers_sigmoid fw si = Returns i_t
     \<and> var_add fw r_x r_h = Returns sr \<and> layers_sigmoid fw sr = Returns r_t
     \<and> var_add fw g_x g_h = Returns sg \<and> layers_tanh fw sg = Returns g_t
     \<and> attn fw r_t eidetic_cell eidetic_cell = Inr a
     \<and> var_add fw cell a = Returns ca
     \<and> layers_layer_norm fw 2 ca = Returns n
     \<and> var_mul fw i_t g_t = Returns ig
     \<and> var_add fw n ig = Returns new_cell"
  using assms
  by (auto simp: new_cell_of_def bindE_eq_Inr)

text \<open>
  C2: construction raises \<open>ValueError\<close> exactly when \<open>conv_ndims\<close> differs from
  \<open>len(input_shape) - 1\<close>; for all other arguments it succeeds and the cell holds the
  arguments unchanged.
\<close>

theorem init_raises_iff_shape_mismatch:
  "(EideticLSTMCell_init cn ishape oc ks lnorm gain shift fb nm = Inl (ValueError InitShape)
      \<longleftrightarrow> cn \<noteq> int (length ishape) - 1)
   \<and> (EideticLSTMCell_init cn ishape oc ks lnorm gain shift fb nm
        = (if cn \<noteq> int (length ishape) - 1 then Inl (ValueError InitShape)
           else Inr \<lparr>conv_ndims = cn, input_shape = ishape, output_channels = oc,
                kernel_shape = ks, layer_norm = lnorm, norm_gain = gain,
                norm_shift = shift, forget_bias = fb, layer_name = nm\<rparr>))"
  by (simp add: EideticLSTMCell_init_def)

lemma length_4_iff: "length xs = 4 \<longleftrightarrow> (\<exists>a b c d. xs = [a, b, c, d])"
  by (auto simp: length_Suc_conv numeral_eq_Suc)

lemma length_5_iff: "length xs = 5 \<longleftrightarrow> (\<exists>a b c d e. xs = [a, b, c, d, e])"
  by (auto simp: length_Suc_conv numeral_eq_Suc)

lemma attn_dims_Inr_iff:
  "attn_dims qs = Inr (b, w, h, n) \<longleftrightarrow> qs = [b, w, h, n] \<or> (\<exists>l. qs = [b, l, w, h, n])"
proof (cases "length qs = 4")
  case True
  then obtain x0 x1 x2 x3 where "qs = [x0, x1, x2, x3]" by (auto simp: length_4_iff)
  then show ?thesis by (auto simp: attn_dims_def)
next
  case n4: False
  show ?thesis
  proof (cases "length qs = 5")
    case True
    then obtain x0 x1 x2 x3 x4 where "qs = [x0, x1, x2, x3, x4]"
      by (auto simp: length_5_iff)
    then show ?thesis by (auto simp: attn_dims_def)
  next
    case False
    with n4 show ?thesis by (auto simp: attn_dims_def)
  qed
qed

lemma attn_checks_Inr_iff:
  "attn_checks qs ks vs = Inr (b, w, h, n) \<longleftrightarrow>
     (qs = [b, w, h, n] \<or> (\<exists>l. qs = [b, l, w, h, n]))
   \<and> (\<exists>kb kl. ks = [kb, kl, w, h, n])
   \<and> (\<exists>vb vl. vs = [vb, vl, w, h, n])"
proof -
  have "attn_checks qs ks vs = Inr (b, w, h, n) \<longleftrightarrow>
      attn_dims qs = Inr (b, w, h, n) \<and> length ks = 5 \<and> length vs = 5
      \<and> w = ks ! 2 \<and> h = ks ! 3 \<and> n = ks ! 4 \<and> w = vs ! 2 \<and> h = vs ! 3 \<and> n = vs ! 4"
    by (auto simp: attn_checks_def bindE_eq_Inr split: if_splits)
  also have "\<dots> \<longleftrightarrow> (qs = [b, w, h, n] \<or> (\<exists>l. qs = [b, l, w, h, n]))
   \<and> (\<exists>kb kl. ks = [kb, kl, w, h, n])
   \<and> (\<exists>vb vl. vs = [vb, vl, w, h, n])"
    unfolding attn_dims_Inr_iff length_5_iff by auto
  finally show ?thesis .
qed

lemma attn_after_checks:
  assumes "attn_checks (tshape fw q) (tshape fw k) (tshape fw v) = Inr (b, w, h, n)"
  shows "attn fw q k v =
      bindE (fluid_call (layers_reshape fw q [b, -1, n])) (\<lambda>query.
      bindE (fluid_call (layers_reshape fw k [b, -1, n])) (\<lambda>keys.
      bindE (fluid_call (layers_reshape fw v [b, -1, n])) (\<lambda>vals.
      bindE (fluid_call (layers_matmul fw query keys False True)) (\<lambda>a1.
      bindE (fluid_call (layers_softmax fw a1 2)) (\<lambda>a2.
      bindE (fluid_call (layers_matmul fw a2 vals False False)) (\<lambda>a3.
      fluid_call (layers_reshape fw a3
        (if length (tshape fw q) = 4 then [b, w, h, n] else [b, -1, w, h, n]))))))))"
  using assms by (simp add: attn_def Let_def)

lemma attn_Inr:
  assumes "attn fw q k v = Inr a"
  shows "\<exists>b w h n query keys vals a1 a2 a3.
       attn_checks (tshape fw q) (tshape fw k) (tshape fw v) = Inr (b, w, h, n)
     \<and> layers_reshape fw q [b, -1, n] = Returns query
     \<and> layers_reshape fw k [b, -1, n] = Returns keys
     \<and> layers_reshape fw v [b, -1, n] = Returns vals
     \<and> layers_matmul fw query keys False True = Returns a1
     \<and> layers_softmax fw a1 2 = Returns a2
     \<and> layers_matmul fw a2 vals False False = Returns a3
     \<and> layers_reshape fw a3
          (if length (tshape fw q) = 4 then [b, w, h, n] else [b, -1, w, h, n]) = Returns a"
proof -
  from assms obtain d
    where "attn_checks (tshape fw q) (tshape fw k) (tshape fw v) = Inr d"
    by (auto simp: attn_def Let_def bindE_eq_Inr)
  then obtain b w h n
    where c: "attn_checks (tshape fw q) (tshape fw k) (tshape fw v) = Inr (b, w, h, n)"
    by (cases d) auto
  from assms [unfolded attn_after_checks [OF c]] c show ?thesis
    unfolding bindE_eq_Inr fluid_call_eq_Inr by blast
qed

text \<open>
  C1: whenever a call of a cell with layer normalization returns, \<open>conv_ndims\<close> is 2 or 3
  and the new cell state is \<open>layer_norm(cell + a) + i_t * g_t\<close>. Here
  \<open>i_t = sigmoid(i_x + i_h)\<close>, \<open>r_t = sigmoid(r_x + r_h)\<close> and \<open>g_t = tanh(g_x + g_h)\<close>, the
  \<open>h\<close> gates being the four parts of the normalized same-padded convolution of the
  hidden state and the \<open>x\<close> gates the first three of the seven parts of the normalized
  same-padded convolution of the input. And \<open>a\<close> is the self-attention of the recall
  gate over the memory bank: \<open>r_t\<close>, of rank 4 or 5, and \<open>eidetic_cell\<close>, of rank 5 with
  the same width, height and channels, are flattened to \<open>(batch, positions, channels)\<close>,
  the scores \<open>query \<cdot> keys\<^sup>T\<close> go through \<open>softmax\<close> on axis 2 and are multiplied by the
  flattened memory bank again, and the product is reshaped to the layout of \<open>r_t\<close>.
\<close>

theorem new_cell_recurrence:
  assumes "layer_norm self"
    and "call fw self inputs hidden cell global_memory eidetic_cell
           = Inr (output, new_cell, new_global_memory)"
  shows "(conv_ndims self = 2 \<or> conv_ndims self = 3)
   \<and> (\<exists>hc hn i_h g_h r_h o_h xc xn i_x g_x r_x o_x temp_i_x temp_g_x temp_f_x
         si i_t sr r_t sg g_t b w h n kb kl query keys a1 a2 a3 a ca nca ig.
       (conv_ndims self = 2
         \<and> layers_conv2d fw 0 hidden (4 * output_channels self) (kernel_shape self) = Returns hc
        \<or> conv_ndims self = 3
         \<and> layers_conv3d fw 0 hidden (4 * output_channels self) (kernel_shape self) = Returns hc)
     \<and> layers_layer_norm fw 0 hc = Returns hn
     \<and> layers_split fw hn 4 (-1) = Returns [i_h, g_h, r_h, o_h]
     \<and> (conv_ndims self = 2
         \<and> layers_conv2d fw 1 inputs (7 * output_channels self) (kernel_shape self) = Returns xc
        \<or> conv_ndims self = 3
         \<and> layers_conv3d fw 1 inputs (7 * output_channels self) (kernel_shape self) = Returns xc)
     \<and> layers_layer_norm fw 1 xc = Returns xn
     \<and> layers_split fw xn 7 (-1) = Returns [i_x, g_x, r_x, o_x, temp_i_x, temp_g_x, temp_f_x]
     \<and> var_add fw i_x i_h = Returns si \<and> layers_sigmoid fw si = Returns i_t
     \<and> var_add fw r_x r_h = Returns sr \<and> layers_sigmoid fw sr = Returns r_t
     \<and> var_add fw g_x g_h = Returns sg \<and> layers_tanh fw sg = Returns g_t
     \<and> (tshape fw r_t = [b, w, h, n] \<or> (\<exists>l. tshape fw r_t = [b, l, w, h, n]))
     \<and> tshape fw eidetic_cell = [kb, kl, w, h, n]
     \<and> layers_reshape fw r_t [b, -1, n] = Returns query
     \<and> layers_reshape fw eidetic_cell [b, -1, n] = Returns keys
     \<and> layers_matmul fw query keys False True = Returns a1
     \<and> layers_softmax fw a1 2 = Returns a2
     \<and> layers_matmul fw a2 keys False False = Returns a3
     \<and> layers_reshape fw a3
          (if length (tshape fw r_t) = 4 then [b, w, h, n] else [b, -1, w, h, n]) = Returns a
     \<and> var_add fw cell a = Returns ca
     \<and> layers_layer_norm fw 2 ca = Returns nca
     \<and> var_mul fw i_t g_t = Returns ig
     \<and> var_add fw nca ig = Returns new_cell)"
proof -
  from assms(2) obtain i_h g_h r_h o_h new_inputs i_x g_x r_x o_x temp_i_x temp_g_x temp_f_x
    where hg: "hidden_gates fw self hidden = Inr (i_h, g_h, r_h, o_h)"
      and xc: "conv fw self 1 inputs (7 * output_channels self) (kernel_shape self)
                 = Inr new_inputs"
      and ig: "input_gates fw self new_inputs
                 = Inr (i_x, g_x, r_x, o_x, temp_i_x, temp_g_x, temp_f_x)"
      and nc: "new_cell_of fw i_x g_x r_x i_h g_h r_h cell eidetic_cell = Inr new_cell"
    by (auto simp: call_def bindE_eq_Inr)
  from hidden_gates_Inr [OF assms(1) hg] obtain hc hn
    where h: "conv fw self 0 hidden (4 * output_channels self) (kernel_shape self) = Inr (Some hc)"
      "layers_layer_norm fw 0 hc = Returns hn"
      "layers_split fw hn 4 (-1) = Returns [i_h, g_h, r_h, o_h]"
    by blast
  from input_gates_Inr [OF assms(1) ig] obtain xc' xn x1 x2 x3 x4 x5 x6 x7
    where x: "new_inputs = Some xc'" "layers_layer_norm fw 1 xc' = Returns xn"
      "layers_split fw xn 7 (-1) = Returns [x1, x2, x3, x4, x5, x6, x7]"
      "i_x = Some x1" "g_x = Some x2" "r_x = Some x3"
    by blast
  from nc x have "new_cell_of fw (Some x1) (Some x2) (Some x3) i_h g_h r_h cell eidetic_cell
      = Inr new_cell" by simp
  from new_cell_of_Inr [OF this] obtain si i_t sr r_t sg g_t av ca nca ig'
    where n: "var_add fw x1 i_h = Returns si" "layers_sigmoid fw si = Returns i_t"
      "var_add fw x3 r_h = Returns sr" "layers_sigmoid fw sr = Returns r_t"
      "var_add fw x2 g_h = Returns sg" "layers_tanh fw sg = Returns g_t"
      "attn fw r_t eidetic_cell eidetic_cell = Inr av"
      "var_add fw cell av = Returns ca"
      "layers_layer_norm fw 2 ca = Returns nca"
      "var_mul fw i_t g_t = Returns ig'"
      "var_add fw nca ig' = Returns new_cell"
    by blast
  from attn_Inr [OF n(7)] obtain b w h' nch query keys vals a1 a2 a3
    where at: "attn_checks (tshape fw r_t) (tshape fw eidetic_cell) (tshape fw eidetic_cell)
        = Inr (b, w, h', nch)"
      "layers_reshape fw r_t [b, -1, nch] = Returns query"
      "layers_reshape fw eidetic_cell [b, -1, nch] = Returns keys"
      "layers_reshape fw eidetic_cell [b, -1, nch] = Returns vals"
      "layers_matmul fw query keys False True = Returns a1"
      "layers_softmax fw a1 2 = Returns a2"
      "layers_matmul fw a2 vals False False = Returns a3"
      "layers_reshape fw a3
          (if length (tshape fw r_t) = 4 then [b, w, h', nch] else [b, -1, w, h', nch])
         = Returns av"
    by blast
  from at(3,4) have kv: "vals = keys" by simp
  from at(1) obtain kb kl
    where qs: "tshape fw r_t = [b, w, h', nch] \<or> (\<exists>l. tshape fw r_t = [b, l, w, h', nch])"
      and ks: "tshape fw eidetic_cell = [kb, kl, w, h', nch]"
    unfolding attn_checks_Inr_iff by blast
  from h(1) have cn: "conv_ndims self = 2 \<or> conv_ndims self = 3"
    by (auto simp: conv_eq_Inr_Some)
  from xc x(1) have xc2: "conv fw self 1 inputs (7 * output_channels self) (kernel_shape self)
       = Inr (Some xc')" by simp
  show ?thesis
    apply (rule conjI [OF cn])
    apply (intro exI conjI)
                            apply (rule h(1) [unfolded conv_eq_Inr_Some])
                           apply (rule h(2))
                          apply (rule h(3))
                         apply (rule xc2 [unfolded conv_eq_Inr_Some])
                        apply (rule x(2))
                       apply (rule x(3))
                      apply (rule n(1))
                     apply (rule n(2))
                    apply (rule n(3))
                   apply (rule n(4))
                  apply (rule n(5))
                 apply (rule n(6))
                apply (rule qs)
               apply (rule ks)
              apply (rule at(2))
             apply (rule at(3))
            apply (rule at(5))
           apply (rule at(6))
          apply (rule at(7) [unfolded kv])
         apply (rule at(8))
        apply (rule n(8))
       apply (rule n(9))
      apply (rule n(10))
     apply (rule n(11))
    done
qed

lemmas cell_defs = call_def hidden_gates_def input_gates_def memory_gates_def new_cell_of_def
  new_global_memory_of_def output_of_def conv_def norm_layer_def attn_def attn_checks_def
  attn_dims_def bindE_def fluid_call_def tensor_arg_def local_var_def unpack4_def unpack7_def

lemmas shape_fluid_defs = shape_fluid_def infer_shape_def axis_index_def shape_matmul_def
  shape_split_def shape_concat_def shape_conv_same_def kernel_fits_def or_raise_def Let_def

lemma cell3d_run:
  "call shape_fluid cell3d [1, 2, 4, 4, 3] [1, 2, 4, 4, 2] [1, 2, 4, 4, 2] [1, 2, 4, 4, 2]
     [1, 3, 4, 4, 2] = Inr ([1, 2, 4, 4, 2], [1, 2, 4, 4, 2], [1, 2, 4, 4, 2])"
  by (simp add: cell3d_def cell_defs shape_fluid_defs)

theorem new_cell_recurrence_witness:
  "layer_norm cell3d
   \<and> call shape_fluid cell3d [1, 2, 4, 4, 3] [1, 2, 4, 4, 2] [1, 2, 4, 4, 2] [1, 2, 4, 4, 2]
       [1, 3, 4, 4, 2] = Inr ([1, 2, 4, 4, 2], [1, 2, 4, 4, 2], [1, 2, 4, 4, 2])
   \<and> (conv_ndims cell3d = 2 \<or> conv_ndims cell3d = 3)
   \<and> (\<exists>hc hn i_h g_h r_h o_h xc xn i_x g_x r_x o_x temp_i_x temp_g_x temp_f_x
         si i_t sr r_t sg g_t b w h n kb kl query keys a1 a2 a3 a ca nca ig.
       (conv_ndims cell3d = 2
         \<and> layers_conv2d shape_fluid 0 [1, 2, 4, 4, 2] (4 * output_channels cell3d) (kernel_shape cell3d) = Returns hc
        \<or> conv_ndims cell3d = 3
         \<and> layers_conv3d shape_fluid 0 [1, 2, 4, 4, 2] (4 * output_channels cell3d) (kernel_shape cell3d) = Returns hc)
     \<and> layers_layer_norm shape_fluid 0 hc = Returns hn
     \<and> layers_split shape_fluid hn 4 (-1) = Returns [i_h, g_h, r_h, o_h]
     \<and> (conv_ndims cell3d = 2
         \<and> layers_conv2d shape_fluid 1 [1, 2, 4, 4, 3] (7 * output_channels cell3d) (kernel_shape cell3d) = Returns xc
        \<or> conv_ndims cell3d = 3
         \<and> layers_conv3d shape_fluid 1 [1, 2, 4, 4, 3] (7 * output_channels cell3d) (kernel_shape cell3d) = Returns xc)
     \<and> layers_layer_norm shape_fluid 1 xc = Returns xn
     \<and> layers_split shape_fluid xn 7 (-1) = Returns [i_x, g_x, r_x, o_x, temp_i_x, temp_g_x, temp_f_x]
     \<and> var_add shape_fluid i_x i_h = Returns si \<and> layers_sigmoid shape_fluid si = Returns i_t
     \<and> var_add shape_fluid r_x r_h = Returns sr \<and> layers_sigmoid shape_fluid sr = Returns r_t
     \<and> var_add shape_fluid g_x g_h = Returns sg \<and> layers_tanh shape_fluid sg = Returns g_t
     \<and> (tshape shape_fluid r_t = [b, w, h, n] \<or> (\<exists>l. tshape shape_fluid r_t = [b, l, w, h, n]))
     \<and> tshape shape_fluid [1, 3, 4, 4, 2] = [kb, kl, w, h, n]
     \<and> layers_reshape shape_fluid r_t [b, -1, n] = Returns query
     \<and> layers_reshape shape_fluid [1, 3, 4, 4, 2] [b, -1, n] = Returns keys
     \<and> layers_matmul shape_fluid query keys False True = Returns a1
     \<and> layers_softmax shape_fluid a1 2 = Returns a2
     \<and> layers_matmul shape_fluid a2 keys False False = Returns a3
     \<and> layers_reshape shape_fluid a3
          (if length (tshape shape_fluid r_t) = 4 then [b, w, h, n] else [b, -1, w, h, n]) = Returns a
     \<and> var_add shape_fluid [1, 2, 4, 4, 2] a = Returns ca
     \<and> layers_layer_norm shape_fluid 2 ca = Returns nca
     \<and> var_mul shape_fluid i_t g_t = Returns ig
     \<and> var_add shape_fluid nca ig = Returns [1, 2, 4, 4, 2])"
proof -
  have h1: "layer_norm cell3d" by (simp add: cell3d_def)
  show ?thesis
    by (rule conjI [OF h1 conjI [OF cell3d_run new_cell_recurrence [OF h1 cell3d_run]]])
qed

lemma hidden_gates_no_conv:
  assumes "conv_ndims self \<noteq> 2" "conv_ndims self \<noteq> 3"
  shows "hidden_gates fw self hidden = Inl NoneOperand"
  using assms by (simp add: hidden_gates_def conv_def norm_layer_def tensor_arg_def)

text \<open>
  C9: construction accepts \<open>conv_ndims = 1\<close> with an \<open>input_shape\<close> of length 2; for a
  \<open>conv_ndims\<close> other than 2 and 3 \<open>_conv\<close> returns \<open>None\<close> and \<open>__call__\<close> fails on the
  result of its first convolution, which the framework refuses as an operand; so a call
  that returns was made on a cell with \<open>conv_ndims\<close> 2 or 3.
\<close>

theorem conv_ndims_outside_2_3_unusable:
  "(length ishape = 2 \<longrightarrow>
       EideticLSTMCell_init 1 ishape oc ks lnorm gain shift fb nm
         = Inr \<lparr>conv_ndims = 1, input_shape = ishape, output_channels = oc,
                kernel_shape = ks, layer_norm = lnorm, norm_gain = gain,
                norm_shift = shift, forget_bias = fb, layer_name = nm\<rparr>)
   \<and> (conv_ndims self \<noteq> 2 \<and> conv_ndims self \<noteq> 3 \<longrightarrow>
        conv fw self site x n k = Inr None
      \<and> call fw self inputs hidden cell global_memory eidetic_cell = Inl NoneOperand)
   \<and> (call fw' self' inputs' hidden' cell' global_memory' eidetic_cell' = Inr r \<longrightarrow>
        conv_ndims self' = 2 \<or> conv_ndims self' = 3)"
proof (intro conjI impI)
  assume "length ishape = 2"
  then show "EideticLSTMCell_init 1 ishape oc ks lnorm gain shift fb nm
         = Inr \<lparr>conv_ndims = 1, input_shape = ishape, output_channels = oc,
                kernel_shape = ks, layer_norm = lnorm, norm_gain = gain,
                norm_shift = shift, forget_bias = fb, layer_name = nm\<rparr>"
    by (simp add: EideticLSTMCell_init_def)
next
  assume a: "conv_ndims self \<noteq> 2 \<and> conv_ndims self \<noteq> 3"
  then show "conv fw self site x n k = Inr None" by (simp add: conv_def)
  from a show "call fw self inputs hidden cell global_memory eidetic_cell = Inl NoneOperand"
    by (simp add: call_def hidden_gates_no_conv)
next
  assume r: "call fw' self' inputs' hidden' cell' global_memory' eidetic_cell' = Inr r"
  show "conv_ndims self' = 2 \<or> conv_ndims self' = 3"
  proof (rule ccontr)
    assume "\<not> (conv_ndims self' = 2 \<or> conv_ndims self' = 3)"
    then have "call fw' self' inputs' hidden' cell' global_memory' eidetic_cell'
        = Inl NoneOperand"
      by (simp add: call_def hidden_gates_no_conv)
    with r show False by simp
  qed
qed

theorem conv_ndims_outside_2_3_unusable_witness:
  "length [4, 3 :: int] = 2
   \<and> EideticLSTMCell_init 1 [4, 3] 2 (KTuple [5]) True 1 0 1 ''cell''
       = Inr (cell3d\<lparr>conv_ndims := 1, input_shape := [4, 3], kernel_shape := KTuple [5],
                     layer_name := ''cell''\<rparr>)
   \<and> conv_ndims (cell3d\<lparr>conv_ndims := 1\<rparr>) \<noteq> 2 \<and> conv_ndims (cell3d\<lparr>conv_ndims := 1\<rparr>) \<noteq> 3
   \<and> conv shape_fluid (cell3d\<lparr>conv_ndims := 1\<rparr>) 0 [1, 4, 2] 8 (KTuple [5]) = Inr None
   \<and> call shape_fluid (cell3d\<lparr>conv_ndims := 1\<rparr>) [1, 4, 3] [1, 4, 2] [1, 4, 2] [1, 4, 2]
       [1, 3, 4, 4, 2] = Inl NoneOperand
   \<and> call shape_fluid cell3d [1, 2, 4, 4, 3] [1, 2, 4, 4, 2] [1, 2, 4, 4, 2] [1, 2, 4, 4, 2]
       [1, 3, 4, 4, 2] = Inr ([1, 2, 4, 4, 2], [1, 2, 4, 4, 2], [1, 2, 4, 4, 2])
   \<and> conv_ndims cell3d = 3"
  using conv_ndims_outside_2_3_unusable
      [where ishape = "[4, 3]" and oc = 2 and ks = "KTuple [5]" and lnorm = True
         and gain = 1 and shift = 0 and fb = 1 and nm = "''cell''"
         and self = "cell3d\<lparr>conv_ndims := 1\<rparr>" and fw = shape_fluid and site = 0
         and x = "[1, 4, 2]" and n = 8 and k = "KTuple [5]"
         and inputs = "[1, 4, 3]" and hidden = "[1, 4, 2]" and cell = "[1, 4, 2]"
         and global_memory = "[1, 4, 2]" and eidetic_cell = "[1, 3, 4, 4, 2]"
         and fw' = shape_fluid and self' = cell3d and inputs' = "[1, 2, 4, 4, 3]"
         and hidden' = "[1, 2, 4, 4, 2]" and cell' = "[1, 2, 4, 4, 2]"
         and global_memory' = "[1, 2, 4, 4, 2]" and eidetic_cell' = "[1, 3, 4, 4, 2]"
         and r = "([1, 2, 4, 4, 2], [1, 2, 4, 4, 2], [1, 2, 4, 4, 2])"]
    cell3d_run
  by (simp add: cell3d_def)

text \<open>
  C8 as amended: a cell without layer normalization never returns from \<open>__call__\<close>;
  whenever the hidden state's convolution and split and the input's convolution succeed,
  the call fails on the unbound local variable \<open>i_x\<close>.
\<close>

theorem call_fails_without_layer_norm:
  assumes "\<not> layer_norm self"
  shows "(\<exists>e. call fw self inputs hidden cell global_memory eidetic_cell = Inl e)
   \<and> (hidden_gates fw self hidden = Inr hg
      \<and> conv fw self 1 inputs (7 * output_channels self) (kernel_shape self) = Inr xc
      \<longrightarrow> call fw self inputs hidden cell global_memory eidetic_cell
            = Inl (UnboundLocalError ''i_x''))"
proof -
  have ig: "input_gates fw self y = Inr (None, None, None, None, None, None, None)" for y
    using assms by (simp add: input_gates_def)
  have nc: "new_cell_of fw None g r i_h g_h r_h cell eidetic_cell
      = Inl (UnboundLocalError ''i_x'')" for g r i_h g_h r_h
    by (simp add: new_cell_of_def local_var_def)
  have a: "call fw self inputs hidden cell global_memory eidetic_cell
      = Inl (UnboundLocalError ''i_x'')"
    if "hidden_gates fw self hidden = Inr hg'"
      and "conv fw self 1 inputs (7 * output_channels self) (kernel_shape self) = Inr xc'"
    for hg' xc'
    using that by (cases hg') (simp add: call_def ig nc)
  have b: "\<exists>e. call fw self inputs hidden cell global_memory eidetic_cell = Inl e"
  proof (cases "hidden_gates fw self hidden")
    case (Inl e)
    then show ?thesis by (simp add: call_def)
  next
    case hgr: (Inr hg')
    show ?thesis
    proof (cases "conv fw self 1 inputs (7 * output_channels self) (kernel_shape self)")
      case (Inl e)
      with hgr show ?thesis by (cases hg') (simp add: call_def)
    next
      case (Inr xc')
      with hgr a show ?thesis by blast
    qed
  qed
  from a b show ?thesis by blast
qed

theorem call_fails_without_layer_norm_witness:
  "\<not> layer_norm (cell3d\<lparr>layer_norm := False\<rparr>)
   \<and> hidden_gates shape_fluid (cell3d\<lparr>layer_norm := False\<rparr>) [1, 2, 4, 4, 2]
       = Inr ([1, 2, 4, 4, 2], [1, 2, 4, 4, 2], [1, 2, 4, 4, 2], [1, 2, 4, 4, 2])
   \<and> conv shape_fluid (cell3d\<lparr>layer_norm := False\<rparr>) 1 [1, 2, 4, 4, 3] 14 (KTuple [2, 5, 5])
       = Inr (Some [1, 2, 4, 4, 14])
   \<and> call shape_fluid (cell3d\<lparr>layer_norm := False\<rparr>) [1, 2, 4, 4, 3] [1, 2, 4, 4, 2]
       [1, 2, 4, 4, 2] [1, 2, 4, 4, 2] [1, 3, 4, 4, 2] = Inl (UnboundLocalError ''i_x'')"
proof -
  let ?c = "cell3d\<lparr>layer_norm := False\<rparr>"
  have h: "\<not> layer_norm ?c" by simp
  have hg: "hidden_gates shape_fluid ?c [1, 2, 4, 4, 2]
       = Inr ([1, 2, 4, 4, 2], [1, 2, 4, 4, 2], [1, 2, 4, 4, 2], [1, 2, 4, 4, 2])"
    by (simp add: cell3d_def cell_defs shape_fluid_defs)
  have cv: "conv shape_fluid ?c 1 [1, 2, 4, 4, 3] (7 * output_channels ?c) (kernel_shape ?c)
       = Inr (Some [1, 2, 4, 4, 14])"
    by (simp add: cell3d_def cell_defs shape_fluid_defs)
  from call_fails_without_layer_norm [OF h, of shape_fluid "[1, 2, 4, 4, 3]" "[1, 2, 4, 4, 2]"
      "[1, 2, 4, 4, 2]" "[1, 2, 4, 4, 2]" "[1, 3, 4, 4, 2]"] hg cv h
  show ?thesis by (simp add: cell3d_def)
qed

text \<open>
  C8 as stated fails for a cell with \<open>conv_ndims = 1\<close>: without layer normalization the
  \<open>None\<close> that \<open>_conv\<close> returns goes straight into \<open>split\<close>, and the call fails there,
  not on an unbound variable.
\<close>

theorem call_without_layer_norm_other_failure:
  "\<not> layer_norm (cell3d\<lparr>conv_ndims := 1, input_shape := [4, 3], layer_norm := False\<rparr>)
   \<and> EideticLSTMCell_init 1 [4, 3] 2 (KTuple [2, 5, 5]) False 1 0 1 ''eidetic_3d_lstm_cell''
       = Inr (cell3d\<lparr>conv_ndims := 1, input_shape := [4, 3], layer_norm := False\<rparr>)
   \<and> call shape_fluid (cell3d\<lparr>conv_ndims := 1, input_shape := [4, 3], layer_norm := False\<rparr>)
       [1, 4, 3] [1, 4, 2] [1, 4, 2] [1, 4, 2] [1, 3, 4, 4, 2] = Inl NoneOperand
   \<and> NoneOperand \<noteq> UnboundLocalError ''i_x''"
  by (simp add: cell3d_def EideticLSTMCell_init_def cell_defs)

lemma fluid_call_ValueError: "fluid_call r = Inl (ValueError s) \<Longrightarrow> s = Framework"
  by (cases r) (simp_all add: fluid_call_def)

lemma tensor_arg_not_ValueError [simp]: "tensor_arg r \<noteq> Inl (ValueError s)"
  by (cases r) (simp_all add: tensor_arg_def)

lemma local_var_not_ValueError [simp]: "local_var nm r \<noteq> Inl (ValueError s)"
  by (cases r) (simp_all add: local_var_def)

lemma unpack4_ValueError: "unpack4 xs = Inl (ValueError s) \<Longrightarrow> s = Unpack"
  by (simp add: unpack4_def split: if_splits)

lemma unpack7_ValueError: "unpack7 xs = Inl (ValueError s) \<Longrightarrow> s = Unpack"
  by (simp add: unpack7_def split: if_splits)

lemma conv_ValueError: "conv fw self site x oc ks = Inl (ValueError s) \<Longrightarrow> s = Framework"
  by (cases "layers_conv2d fw site x oc ks"; cases "layers_conv3d fw site x oc ks")
     (auto simp: conv_def fluid_call_def split: if_splits)

lemma norm_layer_ValueError: "norm_layer fw site x = Inl (ValueError s) \<Longrightarrow> s = Framework"
  by (auto simp: norm_layer_def bindE_eq_Inl dest: fluid_call_ValueError)

lemma map_sum_id_eq_Inl: "map_sum id f m = Inl e \<longleftrightarrow> m = Inl e"
  by (cases m) auto

lemma hidden_gates_ValueError:
  "hidden_gates fw self hidden = Inl (ValueError s) \<Longrightarrow> s = Unpack \<or> s = Framework"
  by (auto simp: hidden_gates_def bindE_eq_Inl map_sum_id_eq_Inl
      dest: unpack4_ValueError fluid_call_ValueError conv_ValueError norm_layer_ValueError
      split: if_splits)

lemma input_gates_ValueError:
  "input_gates fw self x = Inl (ValueError s) \<Longrightarrow> s = Unpack \<or> s = Framework"
  by (auto simp: input_gates_def bindE_eq_Inl
      dest: unpack7_ValueError fluid_call_ValueError norm_layer_ValueError split: if_splits)

lemma memory_gates_ValueError:
  "memory_gates fw self x = Inl (ValueError s) \<Longrightarrow> s = Unpack \<or> s = Framework"
  by (auto simp: memory_gates_def bindE_eq_Inl
      dest: unpack4_ValueError fluid_call_ValueError norm_layer_ValueError split: if_splits)

lemma new_cell_of_ValueError:
  "new_cell_of fw i_x g_x r_x i_h g_h r_h cell ec = Inl (ValueError s)
     \<Longrightarrow> s = Framework \<or> (\<exists>r_t. attn fw r_t ec ec = Inl (ValueError s))"
  by (auto simp: new_cell_of_def bindE_eq_Inl
      dest: fluid_call_ValueError norm_layer_ValueError)

lemma new_global_memory_of_ValueError:
  "new_global_memory_of fw self a b c gm = Inl (ValueError s) \<Longrightarrow> s = Unpack \<or> s = Framework"
  by (auto simp: new_global_memory_of_def bindE_eq_Inl
      dest: memory_gates_ValueError fluid_call_ValueError conv_ValueError)

lemma output_of_ValueError:
  "output_of fw self o_x o_h nc ngm = Inl (ValueError s) \<Longrightarrow> s = Framework"
  by (auto simp: output_of_def bindE_eq_Inl dest: fluid_call_ValueError conv_ValueError)

lemma attn_checks_total:
  "(\<exists>d. attn_checks qs ks vs = Inr d)
   \<or> (\<exists>s \<in> {AttnQuery, AttnKeys, AttnValues, AttnQK, AttnQV}.
         attn_checks qs ks vs = Inl (ValueError s))"
  by (auto simp: attn_checks_def attn_dims_def split: if_splits)

lemma attn_checks_pass_iff:
  "(\<exists>d. attn_checks qs ks vs = Inr d) \<longleftrightarrow>
     (\<exists>b l w h n kb kl vb vl. (qs = [b, w, h, n] \<or> qs = [b, l, w, h, n])
        \<and> ks = [kb, kl, w, h, n] \<and> vs = [vb, vl, w, h, n])"
proof
  assume "\<exists>d. attn_checks qs ks vs = Inr d"
  then obtain b w h n where "attn_checks qs ks vs = Inr (b, w, h, n)" by auto
  then show "\<exists>b l w h n kb kl vb vl. (qs = [b, w, h, n] \<or> qs = [b, l, w, h, n])
        \<and> ks = [kb, kl, w, h, n] \<and> vs = [vb, vl, w, h, n]"
    unfolding attn_checks_Inr_iff by blast
next
  assume "\<exists>b l w h n kb kl vb vl. (qs = [b, w, h, n] \<or> qs = [b, l, w, h, n])
        \<and> ks = [kb, kl, w, h, n] \<and> vs = [vb, vl, w, h, n]"
  then obtain b l w h n kb kl vb vl
    where "(qs = [b, w, h, n] \<or> qs = [b, l, w, h, n])
        \<and> ks = [kb, kl, w, h, n] \<and> vs = [vb, vl, w, h, n]" by blast
  then have "attn_checks qs ks vs = Inr (b, w, h, n)"
    unfolding attn_checks_Inr_iff by blast
  then show "\<exists>d. attn_checks qs ks vs = Inr d" by blast
qed

lemma attn_own_ValueError_iff:
  "(\<exists>s. s \<noteq> Framework \<and> attn fw q k v = Inl (ValueError s))
     \<longleftrightarrow> \<not> (\<exists>d. attn_checks (tshape fw q) (tshape fw k) (tshape fw v) = Inr d)"
proof
  assume "\<exists>s. s \<noteq> Framework \<and> attn fw q k v = Inl (ValueError s)"
  then obtain s where s: "s \<noteq> Framework" "attn fw q k v = Inl (ValueError s)" by blast
  show "\<not> (\<exists>d. attn_checks (tshape fw q) (tshape fw k) (tshape fw v) = Inr d)"
  proof
    assume "\<exists>d. attn_checks (tshape fw q) (tshape fw k) (tshape fw v) = Inr d"
    then obtain b w h n
      where "attn_checks (tshape fw q) (tshape fw k) (tshape fw v) = Inr (b, w, h, n)"
      by auto
    from s(2) [unfolded attn_after_checks [OF this]] have "s = Framework"
      by (auto simp: bindE_eq_Inl dest: fluid_call_ValueError)
    with s(1) show False by simp
  qed
next
  assume n: "\<not> (\<exists>d. attn_checks (tshape fw q) (tshape fw k) (tshape fw v) = Inr d)"
  with attn_checks_total [of "tshape fw q" "tshape fw k" "tshape fw v"]
  obtain s where s: "s \<in> {AttnQuery, AttnKeys, AttnValues, AttnQK, AttnQV}"
    "attn_checks (tshape fw q) (tshape fw k) (tshape fw v) = Inl (ValueError s)"
    by blast
  then have "attn fw q k v = Inl (ValueError s)" by (simp add: attn_def Let_def)
  with s(1) show "\<exists>s. s \<noteq> Framework \<and> attn fw q k v = Inl (ValueError s)" by auto
qed

lemma attn_same_keys_values_ValueError:
  assumes "attn fw r_t ec ec = Inl (ValueError s)"
  shows "s \<in> {AttnQuery, AttnKeys, AttnQK, Framework}"
proof (cases "attn_checks (tshape fw r_t) (tshape fw ec) (tshape fw ec)")
  case (Inl e)
  then have "e \<in> ValueError ` {AttnQuery, AttnKeys, AttnQK}"
    by (auto simp: attn_checks_def attn_dims_def bindE_eq_Inl split: if_splits)
  moreover from Inl have "attn fw r_t ec ec = Inl e" by (simp add: attn_def Let_def)
  ultimately show ?thesis using assms by auto
next
  case (Inr d)
  obtain b w h n where "d = (b, w, h, n)" by (cases d) auto
  with Inr assms [unfolded attn_after_checks [OF Inr [unfolded this]]] have "s = Framework"
    by (auto simp: bindE_eq_Inl dest: fluid_call_ValueError)
  then show ?thesis by simp
qed

text \<open>
  C3 as amended: shape validation is not limited to construction. \<open>_attn\<close> raises a
  \<open>ValueError\<close> of its own exactly when the query has not rank 4 or 5, keys or values
  have not rank 5, or the width, height and channels of query, keys and values do not
  agree; the framework's own checks raise \<open>ValueError\<close> too. A \<open>ValueError\<close> of
  \<open>__call__\<close> comes from Python's unpacking of a \<open>split\<close> result, from inside a
  framework call, or from the check of query rank, keys rank or query against keys in
  its call of \<open>_attn\<close> on the recall gate and \<open>eidetic_cell\<close>.
\<close>

theorem shape_checks_in_attn_and_framework:
  "((\<exists>s. s \<noteq> Framework \<and> attn fw q k v = Inl (ValueError s))
      \<longleftrightarrow> \<not> (\<exists>b l w h n kb kl vb vl.
              (tshape fw q = [b, w, h, n] \<or> tshape fw q = [b, l, w, h, n])
            \<and> tshape fw k = [kb, kl, w, h, n] \<and> tshape fw v = [vb, vl, w, h, n]))
   \<and> (call fw self inputs hidden cell global_memory eidetic_cell = Inl (ValueError s')
      \<longrightarrow> s' = Unpack \<or> s' = Framework
          \<or> s' \<in> {AttnQuery, AttnKeys, AttnQK}
            \<and> (\<exists>r_t. attn fw r_t eidetic_cell eidetic_cell = Inl (ValueError s')))"
proof (intro conjI impI)
  show "(\<exists>s. s \<noteq> Framework \<and> attn fw q k v = Inl (ValueError s))
      \<longleftrightarrow> \<not> (\<exists>b l w h n kb kl vb vl.
              (tshape fw q = [b, w, h, n] \<or> tshape fw q = [b, l, w, h, n])
            \<and> tshape fw k = [kb, kl, w, h, n] \<and> tshape fw v = [vb, vl, w, h, n])"
    unfolding attn_own_ValueError_iff attn_checks_pass_iff ..
next
  assume c: "call fw self inputs hidden cell global_memory eidetic_cell = Inl (ValueError s')"
  from c consider
      (h) "hidden_gates fw self hidden = Inl (ValueError s')"
    | (c) site x oc ks where "conv fw self site x oc ks = Inl (ValueError s')"
    | (i) x where "input_gates fw self x = Inl (ValueError s')"
    | (n) i_x g_x r_x i_h g_h r_h where
        "new_cell_of fw i_x g_x r_x i_h g_h r_h cell eidetic_cell = Inl (ValueError s')"
    | (g) a b c where
        "new_global_memory_of fw self a b c global_memory = Inl (ValueError s')"
    | (o) o_x o_h nc ngm where "output_of fw self o_x o_h nc ngm = Inl (ValueError s')"
    unfolding call_def
    by (auto simp: bindE_eq_Inl)
  then show "s' = Unpack \<or> s' = Framework
          \<or> s' \<in> {AttnQuery, AttnKeys, AttnQK}
            \<and> (\<exists>r_t. attn fw r_t eidetic_cell eidetic_cell = Inl (ValueError s'))"
  proof cases
    case h
    from hidden_gates_ValueError [OF h] show ?thesis by blast
  next
    case c
    from conv_ValueError [OF c] show ?thesis by blast
  next
    case i
    from input_gates_ValueError [OF i] show ?thesis by blast
  next
    case n
    from new_cell_of_ValueError [OF n] show ?thesis
    proof
      assume "s' = Framework"
      then show ?thesis by blast
    next
      assume "\<exists>r_t. attn fw r_t eidetic_cell eidetic_cell = Inl (ValueError s')"
      then obtain r_t where r: "attn fw r_t eidetic_cell eidetic_cell = Inl (ValueError s')"
        by blast
      from attn_same_keys_values_ValueError [OF r] r show ?thesis by auto
    qed
  next
    case g
    from new_global_memory_of_ValueError [OF g] show ?thesis by blast
  next
    case o
    from output_of_ValueError [OF o] show ?thesis by blast
  qed
qed

text \<open>
  C3 as stated fails: invoked with a rank-4 \<open>eidetic_cell\<close>, the cell raises the
  \<open>ValueError\<close> of \<open>_attn\<close>'s check on the keys.
\<close>

theorem call_raises_shape_ValueError:
  "call shape_fluid cell3d [1, 2, 4, 4, 3] [1, 2, 4, 4, 2] [1, 2, 4, 4, 2] [1, 2, 4, 4, 2]
     [1, 4, 4, 2] = Inl (ValueError AttnKeys)"
  by (simp add: cell3d_def cell_defs shape_fluid_defs)

theorem shape_checks_in_attn_and_framework_witness:
  "call shape_fluid cell3d [1, 2, 4, 4, 3] [1, 2, 4, 4, 2] [1, 2, 4, 4, 2] [1, 2, 4, 4, 2]
     [1, 4, 4, 3] = Inl (ValueError AttnKeys)
   \<and> (\<exists>r_t. attn shape_fluid r_t [1, 4, 4, 3] [1, 4, 4, 3] = Inl (ValueError AttnKeys))
   \<and> call shape_fluid cell3d [1, 2, 4, 4, 3] [2, 4, 4, 2] [1, 2, 4, 4, 2] [1, 2, 4, 4, 2]
       [1, 3, 4, 4, 2] = Inl (ValueError Framework)"
proof -
  have c: "call shape_fluid cell3d [1, 2, 4, 4, 3] [1, 2, 4, 4, 2] [1, 2, 4, 4, 2]
     [1, 2, 4, 4, 2] [1, 4, 4, 3] = Inl (ValueError AttnKeys)"
    by (simp add: cell3d_def cell_defs shape_fluid_defs)
  have f: "call shape_fluid cell3d [1, 2, 4, 4, 3] [2, 4, 4, 2] [1, 2, 4, 4, 2] [1, 2, 4, 4, 2]
       [1, 3, 4, 4, 2] = Inl (ValueError Framework)"
    by (simp add: cell3d_def cell_defs shape_fluid_defs)
  from shape_checks_in_attn_and_framework [THEN conjunct2, rule_format, OF c] c f
  show ?thesis by simp
qed













section \<open>Properties of the ECO network\<close>

lemma bindE_assoc: "bindE (bindE m f) g = bindE m (\<lambda>x. bindE (f x) g)"
  by (cases m) simp_all

lemma parallel_concat_3:
  "parallel_concat P [a, b, c] x =
     bindE (a x) (\<lambda>y1. bindE (b x) (\<lambda>y2. bindE (c x) (\<lambda>y3.
       fw_call (paddle_concat P [y1, y2, y3] 1))))"
  by (simp add: parallel_concat_def bindE_assoc)

lemma parallel_concat_4:
  "parallel_concat P [a, b, c, d] x =
     bindE (a x) (\<lambda>y1. bindE (b x) (\<lambda>y2. bindE (c x) (\<lambda>y3. bindE (d x) (\<lambda>y4.
       fw_call (paddle_concat P [y1, y2, y3, y4] 1)))))"
  by (simp add: parallel_concat_def bindE_assoc)

lemmas eco_defs = Inception_forward_def Inception_init_def Inception3c_forward_def
  Inception3c_init_def Inception4e_forward_def Inception4e_init_def Inception5a_forward_def
  Inception5a_init_def Inception5b_forward_def Inception5b_init_def ConvBN_def
  ConvBNLayer_forward_def ConvBNLayer_init_def nn_layer_def

lemmas shape_paddle_defs = shape_paddle_def shape_window_def window_def shape_concat_def
  shape_mean_def infer_shape_def axis_index_def Let_def

text \<open>
  C5: \<open>Inception.forward\<close> applies its four branches to the same input and returns the
  concatenation of their outputs along axis 1; as \<open>__init__\<close> builds them, the branches
  are a 1x1 convolution, a 1x1 then a 3x3 convolution, a 1x1 then two 3x3 convolutions,
  and a 3x3 average pooling then a 1x1 convolution.
\<close>

theorem Inception_forward_is_parallel_concat:
  "Inception_forward P self x
     = parallel_concat P [branch1 self, branch2 self, branch3 self, branch4 self] x
   \<and> Inception_forward P
       (Inception_init P nm num_channels ch1x1 ch3x3reduced ch3x3 doublech3x3reduced
          doublech3x3_1 doublech3x3_2 pool_proj) x
     = parallel_concat P
         [ConvBN P (nm @ ''.branch1'') num_channels ch1x1 1 1 0,
          Sequential
            [ConvBN P (nm @ ''.branch2.0'') num_channels ch3x3reduced 1 1 0,
             ConvBN P (nm @ ''.branch2.1'') ch3x3reduced ch3x3 3 1 1],
          Sequential
            [ConvBN P (nm @ ''.branch3.0'') num_channels doublech3x3reduced 1 1 0,
             ConvBN P (nm @ ''.branch3.1'') doublech3x3reduced doublech3x3_1 3 1 1,
             ConvBN P (nm @ ''.branch3.2'') doublech3x3_1 doublech3x3_2 3 1 1],
          Sequential
            [nn_layer (nn_AvgPool2D P 3 1 1),
             ConvBN P (nm @ ''.branch4.1'') num_channels pool_proj 1 1 0]] x"
  by (simp add: parallel_concat_4 Inception_forward_def Inception_init_def)

text \<open>
  C6 as amended: \<open>Inception\<close>, \<open>Inception4e\<close>, \<open>Inception5a\<close> and \<open>Inception5b\<close> apply each
  of their branches to the block's input and concatenate all outputs along the channel
  axis. \<open>Inception3c\<close> returns \<open>(outputs, b2)\<close> exactly when \<open>branch1\<close>, \<open>branch2\<close> and
  \<open>branch4\<close> applied to the input give \<open>b1\<close>, \<open>b2\<close> and \<open>b4\<close>, \<open>branch3\<close> applied to
  \<open>b2\<close> gives \<open>b3\<close>, and \<open>outputs\<close> is the concatenation of \<open>b1\<close>, \<open>b3\<close> and \<open>b4\<close>.
\<close>

theorem inception_blocks_dataflow:
  "Inception_forward P i x
     = parallel_concat P [branch1 i, branch2 i, branch3 i, branch4 i] x
   \<and> Inception4e_forward P e x
     = parallel_concat P [e4_branch1 e, e4_branch2 e, e4_branch3 e] x
   \<and> Inception5a_forward P a x
     = parallel_concat P [a5_branch1 a, a5_branch2 a, a5_branch3 a, a5_branch4 a] x
   \<and> Inception5b_forward P b x
     = parallel_concat P [b5_branch1 b, b5_branch2 b, b5_branch3 b, b5_branch4 b] x
   \<and> (Inception3c_forward P c x = Inr (outputs, b2)
        \<longleftrightarrow> (\<exists>b1 b3 b4. c3_branch1 c x = Inr b1 \<and> c3_branch2 c x = Inr b2
               \<and> c3_branch3 c b2 = Inr b3 \<and> c3_branch4 c x = Inr b4
               \<and> paddle_concat P [b1, b3, b4] 1 = Some outputs))"
  by (auto simp: parallel_concat_3 parallel_concat_4 Inception_forward_def
      Inception4e_forward_def Inception5a_forward_def Inception5b_forward_def
      Inception3c_forward_def bindE_eq_Inr)

text \<open>
  C6 as stated fails for \<open>Inception3c\<close>. On a \<open>(1, 320, 28, 28)\<close> input the block of the
  model returns a \<open>(1, 576, 14, 14)\<close> tensor and \<open>branch2\<close>'s \<open>(1, 96, 28, 28)\<close> output,
  whereas \<open>branch3\<close>, a convolution over 96 channels, cannot be applied to the input, and
  the four branch outputs cannot be concatenated.
\<close>

theorem Inception3c_is_not_parallel:
  "Inception3c_forward shape_paddle
       (Inception3c_init shape_paddle ''before3d'' 320 128 160 64 96 96) [1, 320, 28, 28]
     = Inr ([1, 576, 14, 14], [1, 96, 28, 28])
   \<and> c3_branch3 (Inception3c_init shape_paddle ''before3d'' 320 128 160 64 96 96)
       [1, 320, 28, 28] = Inl FrameworkError
   \<and> parallel_concat shape_paddle
       [c3_branch1 (Inception3c_init shape_paddle ''before3d'' 320 128 160 64 96 96),
        c3_branch2 (Inception3c_init shape_paddle ''before3d'' 320 128 160 64 96 96),
        c3_branch3 (Inception3c_init shape_paddle ''before3d'' 320 128 160 64 96 96),
        c3_branch4 (Inception3c_init shape_paddle ''before3d'' 320 128 160 64 96 96)]
       [1, 320, 28, 28] = Inl FrameworkError"
  by (simp add: parallel_concat_4 eco_defs shape_paddle_defs fw_call_def)

declare append_until.simps [simp del]

lemma append_until_replicate:
  "append_until n xs b = xs @ replicate (nat (n - int (length xs))) b"
proof (induction n xs b rule: append_until.induct)
  case (1 n xs b)
  show ?case
  proof (cases "int (length xs) < n")
    case True
    then have "nat (n - int (length xs)) = Suc (nat (n - int (length (xs @ [b]))))"
      by simp
    with True 1 show ?thesis
      by (subst append_until.simps) (simp add: replicate_app_Cons_same)
  next
    case False
    then show ?thesis by (subst append_until.simps) simp
  qed
qed

lemma liftE_eq [simp]: "liftE r s = (s', res) \<longleftrightarrow> s = s' \<and> r = res"
  by (auto simp: liftE_def)

lemma readS_eq [simp]: "readS f s = (s', res) \<longleftrightarrow> s = s' \<and> f s = res"
  by (auto simp: readS_def)


lemma bindS_cases:
  assumes "bindS m f s = (s', res)"
  shows "(\<exists>e. m s = (s', Inl e) \<and> res = Inl e) \<or> (\<exists>s1 v. m s = (s1, Inr v) \<and> f v s1 = (s', res))"
  using assms by (cases "m s") (auto simp: bindS_def split: sum.splits)

lemma bindS_keeps_out_3d:
  assumes m: "\<And>s s' r. m s = (s', r) \<Longrightarrow> out_3d s' = out_3d s"
    and f: "\<And>v s s' r. f v s = (s', r) \<Longrightarrow> out_3d s' = out_3d s"
    and b: "bindS m f s = (s', res)"
  shows "out_3d s' = out_3d s"
  using bindS_cases [OF b] m f by (metis (no_types, lifting))

lemma dropout_keeps_out_3d:
  "dropout P x p s = (s', r) \<Longrightarrow> out_3d s' = out_3d s"
  by (auto simp: dropout_def split: option.splits)

lemma dropout_eq_Inr:
  "dropout P x p s = (s', Inr y) \<longleftrightarrow> (\<exists>g. F_dropout P (rng s) x p = Some (y, g) \<and> s' = s\<lparr>rng := g\<rparr>)"
  by (auto simp: dropout_def split: option.splits)

lemma stream_3d_keeps_out_3d:
  assumes "stream_3d P self s = (s', r)"
  shows "out_3d s' = out_3d s"
  using assms unfolding stream_3d_def
  by (rule bindS_keeps_out_3d [rotated 2])
     (auto elim!: bindS_keeps_out_3d [rotated 2] dest: dropout_keeps_out_3d)

lemma stream_2d_keeps_out_3d:
  assumes "stream_2d P self g s = (s', r)"
  shows "out_3d s' = out_3d s"
  using assms unfolding stream_2d_def
  by (rule bindS_keeps_out_3d [rotated 2])
     (auto elim!: bindS_keeps_out_3d [rotated 2] dest: dropout_keeps_out_3d)

lemma streams_keep_out_3d:
  assumes "bindS (stream_3d P self) (\<lambda>out_final_3d.
     bindS (stream_2d P self g) (\<lambda>out_final_2d.
     liftE (classify P self out_final_2d out_final_3d label))) s = (s', r)"
  shows "out_3d s' = out_3d s"
  using assms
  by (rule bindS_keeps_out_3d [rotated 2])
     (auto elim!: bindS_keeps_out_3d [rotated 2]
        dest: stream_3d_keeps_out_3d stream_2d_keeps_out_3d)

lemma bindS_liftE [simp]:
  "bindS (liftE (Inr v)) f s = f v s"
  "bindS (liftE (Inl e)) f s = (s, Inl e)"
  by (simp_all add: bindS_def liftE_def)

lemma bindS_step:
  "m s = (s1, Inr v) \<Longrightarrow> bindS m f s = f v s1"
  "m s = (s1, Inl e) \<Longrightarrow> bindS m f s = (s1, Inl e)"
  by (simp_all add: bindS_def)

lemma forward_cases:
  assumes "forward P self inputs label st = (st', res)"
  shows "(\<exists>e. segment_features P self inputs = Inl e \<and> st' = st \<and> res = Inl e)
   \<or> (\<exists>g b st1 u. segment_features P self inputs = Inr (g, b)
        \<and> update_out_3d (seg_num self) b st = (st1, u)
        \<and> out_3d st' = out_3d st1
        \<and> (\<forall>e. u = Inl e \<longrightarrow> res = Inl e))"
proof (cases "segment_features P self inputs")
  case (Inl e)
  with assms show ?thesis by (simp add: forward_def)
next
  case (Inr gb)
  obtain g b where gb: "gb = (g, b)" by (cases gb) auto
  obtain st1 u where up: "update_out_3d (seg_num self) b st = (st1, u)"
    by (cases "update_out_3d (seg_num self) b st") auto
  have f: "forward P self inputs label st =
      bindS (update_out_3d (seg_num self) b) (\<lambda>_.
        bindS (stream_3d P self) (\<lambda>out_final_3d.
        bindS (stream_2d P self g) (\<lambda>out_final_2d.
        liftE (classify P self out_final_2d out_final_3d label)))) st"
    by (simp add: forward_def Inr gb)
  show ?thesis
  proof (cases u)
    case (Inl e)
    with up have "forward P self inputs label st = (st1, Inl e)"
      unfolding f by (simp add: bindS_step(2))
    with assms have "st' = st1 \<and> res = Inl e" by simp
    with Inr gb up Inl show ?thesis by auto
  next
    case u: (Inr v)
    with up have "forward P self inputs label st =
        bindS (stream_3d P self) (\<lambda>out_final_3d.
        bindS (stream_2d P self g) (\<lambda>out_final_2d.
        liftE (classify P self out_final_2d out_final_3d label))) st1"
      unfolding f by (simp add: bindS_step(1))
    with assms have "bindS (stream_3d P self) (\<lambda>out_final_3d.
        bindS (stream_2d P self g) (\<lambda>out_final_2d.
        liftE (classify P self out_final_2d out_final_3d label))) st1 = (st', res)"
      by simp
    from streams_keep_out_3d [OF this] Inr gb up u show ?thesis by auto
  qed
qed

lemma update_out_3d_result:
  assumes n: "1 \<le> n"
    and inv: "out_3d st = [] \<or> int (length (out_3d st)) = n"
    and up: "update_out_3d n b st = (st1, u)"
  shows "u = Inr ()
   \<and> out_3d st1 = (if out_3d st = [] then replicate (nat n) (next_ref st, b)
                   else tl (out_3d st) @ [(next_ref st, b)])
   \<and> int (length (out_3d st1)) = n"
proof (cases "out_3d st = []")
  case True
  with n up show ?thesis
    by (auto simp: update_out_3d_def Let_def append_until_replicate)
next
  case False
  with inv have len: "int (length (out_3d st)) = n" by simp
  let ?xs = "out_3d st"
  from False len n have l: "length ?xs = nat n" "0 < length ?xs" by auto
  have d: "drop (slice_stop (n - 1) (length ?xs)) ?xs = [last ?xs]"
  proof -
    from n l have "slice_stop (n - 1) (length ?xs) = length ?xs - 1"
      by (auto simp: slice_stop_def)
    with False show ?thesis
      by (metis append_butlast_last_id append_eq_conv_conj length_butlast)
  qed
  have lt: "length (tl ?xs @ [last ?xs]) = nat n" using l by simp
  have s1: "tl ?xs @ drop (slice_stop (n - 1) (length ?xs)) ?xs = tl ?xs @ [last ?xs]"
    using d by simp
  have i1: "py_index (length (tl ?xs @ [last ?xs])) (n - 1) = Inr (nat n - 1)"
    unfolding lt using n by (auto simp: py_index_def Let_def nat_diff_distrib)
  have upd: "(tl ?xs @ [last ?xs])[nat n - 1 := (next_ref st, b)] = tl ?xs @ [(next_ref st, b)]"
    using l by (simp add: list_update_append)
  have "length (tl ?xs @ [(next_ref st, b)]) = nat n" using l by simp
  then have "\<exists>j. py_index (length (tl ?xs @ [(next_ref st, b)])) (n - 2) = Inr j"
    using n by (auto simp: py_index_def Let_def)
  then obtain j where i2: "py_index (length (tl ?xs @ [(next_ref st, b)])) (n - 2) = Inr j"
    by blast
  have e: "update_out_3d n b st =
      (st\<lparr>next_ref := Suc (next_ref st), out_3d := tl ?xs @ [(next_ref st, b)],
          stop_gradient := insert (fst ((tl ?xs @ [(next_ref st, b)]) ! j))
             (stop_gradient (st\<lparr>next_ref := Suc (next_ref st)\<rparr>))\<rparr>, Inr ())"
    unfolding update_out_3d_def Let_def
    by (simp only: len s1 i1 upd i2 sum.case if_True simp_thms)
  with up have "out_3d st1 = tl ?xs @ [(next_ref st, b)]" "u = Inr ()" by auto
  with False l show ?thesis by simp
qed

lemmas forward_defs = forward_def segment_features_def stream_3d_def stream_2d_def
  classify_def update_out_3d_def dropout_def bindS_def liftE_def readS_def shape_at_def
  py_index_def slice_stop_def append_until_replicate init_state_def GoogLeNet_init_def
  shape_ResNet3D_def bindE_def fw_call_def numeral_2_eq_2

lemma eco2_fresh_224:
  "forward shape_paddle eco2 [1, 2, 3, 224, 224] None (init_state ()) =
     (\<lparr>out_3d = [(0, [2, 96, 28, 28]), (0, [2, 96, 28, 28])], stop_gradient = {},
       next_ref = 1, rng = ()\<rparr>, Inr ([1, 101], None))"
  by (simp add: eco2_def forward_defs eco_defs shape_paddle_defs)

lemma eco2_fresh_112:
  "forward shape_paddle eco2 [1, 2, 3, 112, 112] None (init_state ()) =
     (\<lparr>out_3d = [(0, [2, 96, 14, 14]), (0, [2, 96, 14, 14])], stop_gradient = {},
       next_ref = 1, rng = ()\<rparr>, Inr ([1, 101], None))"
  by (simp add: eco2_def forward_defs eco_defs shape_paddle_defs)

lemma eco2_second_112:
  "forward shape_paddle eco2 [1, 2, 3, 112, 112] None
     \<lparr>out_3d = [(0, [2, 96, 28, 28]), (0, [2, 96, 28, 28])], stop_gradient = {},
       next_ref = 1, rng = ()\<rparr> =
     (\<lparr>out_3d = [(0, [2, 96, 28, 28]), (1, [2, 96, 14, 14])], stop_gradient = {0},
       next_ref = 2, rng = ()\<rparr>, Inl FrameworkError)"
  by (simp add: eco2_def forward_defs eco_defs shape_paddle_defs)

lemma eco2_second_224:
  "forward shape_paddle eco2 [1, 2, 3, 224, 224] None
     \<lparr>out_3d = [(0, [2, 96, 28, 28]), (0, [2, 96, 28, 28])], stop_gradient = {},
       next_ref = 1, rng = ()\<rparr> =
     (\<lparr>out_3d = [(0, [2, 96, 28, 28]), (1, [2, 96, 28, 28])], stop_gradient = {0},
       next_ref = 2, rng = ()\<rparr>, Inr ([1, 101], None))"
  by (simp add: eco2_def forward_defs eco_defs shape_paddle_defs)

text \<open>
  C10 as amended: \<open>forward\<close> is stateful through \<open>self.out_3d\<close>. With \<open>seg_num >= 1\<close> and
  a list that is empty or holds \<open>seg_num\<close> tensors, a call that raises before line 551,
  in the reshape or the 2D trunk, leaves the whole state as it was; every other call,
  and so every call that returns, leaves exactly \<open>seg_num\<close> tensors: an empty list is
  filled with \<open>seg_num\<close> references to the current features, a full one is shifted left
  by one with the current features at the end. So the list is empty or holds \<open>seg_num\<close>
  tensors after every call. The output depends on earlier calls: the same input makes
  a fresh model return and a model that has seen frames of another size raise.
\<close>

theorem out_3d_holds_seg_num_tensors:
  assumes n: "1 \<le> seg_num self"
    and inv: "out_3d st = [] \<or> int (length (out_3d st)) = seg_num self"
    and fwd: "forward P self inputs label st = (st', res)"
  shows "(\<forall>e. segment_features P self inputs = Inl e \<longrightarrow> st' = st \<and> res = Inl e)
   \<and> (\<forall>g b. segment_features P self inputs = Inr (g, b) \<longrightarrow>
         int (length (out_3d st')) = seg_num self
       \<and> out_3d st' = (if out_3d st = []
            then replicate (nat (seg_num self)) (next_ref st, b)
            else tl (out_3d st) @ [(next_ref st, b)]))
   \<and> (\<forall>r. res = Inr r \<longrightarrow> (\<exists>g b. segment_features P self inputs = Inr (g, b)))
   \<and> (out_3d st' = [] \<or> int (length (out_3d st')) = seg_num self)
   \<and> snd (forward shape_paddle eco2 [1, 2, 3, 112, 112] None (init_state ()))
       = Inr ([1, 101], None)
   \<and> snd (forward shape_paddle eco2 [1, 2, 3, 112, 112] None
            (fst (forward shape_paddle eco2 [1, 2, 3, 224, 224] None (init_state ()))))
       = Inl FrameworkError"
proof -
  have a: "\<forall>e. segment_features P self inputs = Inl e \<longrightarrow> st' = st \<and> res = Inl e"
    using forward_cases [OF fwd] by auto
  have b: "\<forall>g b. segment_features P self inputs = Inr (g, b) \<longrightarrow>
         int (length (out_3d st')) = seg_num self
       \<and> out_3d st' = (if out_3d st = []
            then replicate (nat (seg_num self)) (next_ref st, b)
            else tl (out_3d st) @ [(next_ref st, b)])"
  proof (intro allI impI)
    fix g b
    assume sf: "segment_features P self inputs = Inr (g, b)"
    with forward_cases [OF fwd] obtain st1 u
      where up: "update_out_3d (seg_num self) b st = (st1, u)"
        and eq: "out_3d st' = out_3d st1"
      by auto
    from update_out_3d_result [OF n inv up]
    have "out_3d st1 = (if out_3d st = []
            then replicate (nat (seg_num self)) (next_ref st, b)
            else tl (out_3d st) @ [(next_ref st, b)])"
      and "int (length (out_3d st1)) = seg_num self"
      by blast+
    then show "int (length (out_3d st')) = seg_num self
       \<and> out_3d st' = (if out_3d st = []
            then replicate (nat (seg_num self)) (next_ref st, b)
            else tl (out_3d st) @ [(next_ref st, b)])"
      unfolding eq by blast
  qed
  have c: "\<forall>r. res = Inr r \<longrightarrow> (\<exists>g b. segment_features P self inputs = Inr (g, b))"
    using forward_cases [OF fwd] by auto
  have d: "out_3d st' = [] \<or> int (length (out_3d st')) = seg_num self"
  proof (cases "segment_features P self inputs")
    case (Inl e)
    with a have "st' = st" by simp
    with inv show ?thesis by simp
  next
    case (Inr gb)
    then obtain g b where "segment_features P self inputs = Inr (g, b)" by (cases gb) auto
    with b show ?thesis by blast
  qed
  have e: "snd (forward shape_paddle eco2 [1, 2, 3, 112, 112] None (init_state ()))
       = Inr ([1, 101], None)"
    by (simp add: eco2_fresh_112)
  have f: "snd (forward shape_paddle eco2 [1, 2, 3, 112, 112] None
            (fst (forward shape_paddle eco2 [1, 2, 3, 224, 224] None (init_state ()))))
       = Inl FrameworkError"
    by (simp only: eco2_fresh_224 eco2_second_112 fst_conv snd_conv)
  show ?thesis
    by (intro conjI a b c d e f)
qed

lemma seg_num_eco2: "seg_num eco2 = 2"
  by (simp add: eco2_def GoogLeNet_init_def Let_def)

theorem out_3d_holds_seg_num_tensors_witness:
  "1 \<le> seg_num eco2
   \<and> forward shape_paddle eco2 [1, 2, 3, 224, 224] None
       \<lparr>out_3d = [(0, [2, 96, 28, 28]), (0, [2, 96, 28, 28])], stop_gradient = {},
         next_ref = 1, rng = ()\<rparr> =
       (\<lparr>out_3d = [(0, [2, 96, 28, 28]), (1, [2, 96, 28, 28])], stop_gradient = {0},
         next_ref = 2, rng = ()\<rparr>, Inr ([1, 101], None))
   \<and> int (length [(0 :: nat, [2, 96, 28, 28 :: int]), (1, [2, 96, 28, 28])]) = seg_num eco2
   \<and> (\<exists>g b. segment_features shape_paddle eco2 [1, 2, 3, 224, 224] = Inr (g, b)
          \<and> [(0, [2, 96, 28, 28]), (1, [2, 96, 28, 28])]
              = tl [(0, [2, 96, 28, 28]), (0, [2, 96, 28, 28])] @ [(1, b)])"
proof -
  let ?s1 = "\<lparr>out_3d = [(0 :: nat, [2, 96, 28, 28 :: int]), (0, [2, 96, 28, 28])],
        stop_gradient = {}, next_ref = 1, rng = ()\<rparr>"
  have n: "1 \<le> seg_num eco2" by (simp add: seg_num_eco2)
  have inv: "out_3d ?s1 = [] \<or> int (length (out_3d ?s1)) = seg_num eco2"
    by (simp add: seg_num_eco2)
  note t = out_3d_holds_seg_num_tensors [OF n inv eco2_second_224]
  from t obtain g b
    where sf: "segment_features shape_paddle eco2 [1, 2, 3, 224, 224] = Inr (g, b)"
    by blast
  from t sf have "[(0 :: nat, [2, 96, 28, 28 :: int]), (1, [2, 96, 28, 28])]
      = tl [(0, [2, 96, 28, 28]), (0, [2, 96, 28, 28])] @ [(1, b)]"
    by simp
  with sf n eco2_second_224 show ?thesis by (auto simp: seg_num_eco2)
qed

text \<open>
  C10 as stated fails for a call that raises early: on a fresh model with
  \<open>seg_num = 2\<close>, a rank-4 input makes \<open>inputs.shape[4]\<close> raise at line 543, and the
  list is still empty after the call.
\<close>

theorem out_3d_empty_after_raising_call:
  "1 \<le> seg_num eco2
   \<and> out_3d (init_state () :: (int list, unit) net_state) = []
   \<and> forward shape_paddle eco2 [2, 3, 224, 224] None (init_state ())
       = (init_state (), Inl IndexError)
   \<and> int (length (out_3d (fst (forward shape_paddle eco2 [2, 3, 224, 224] None
         (init_state ()))))) \<noteq> seg_num eco2"
proof -
  have f: "forward shape_paddle eco2 [2, 3, 224, 224] None (init_state ())
       = (init_state (), Inl IndexError)"
    by (simp add: forward_def segment_features_def shape_at_def py_index_def bindE_def
        shape_paddle_def Let_def)
  show ?thesis
    unfolding f by (simp add: seg_num_eco2 init_state_def)
qed






end
